theory Spec2Isabelle
  imports Main
begin

section \<open>Host and engine interface, as VMAF.cpp uses it\<close>

text \<open>
  VMAF.cpp is an orchestration layer between the frame server (the \<open>vsapi\<close> calls) and
  the scoring engine (the \<open>vmaf_*\<close> calls). The embedding keeps every call the source
  makes as an event of a trace, in program order; a call that returns a status is
  answered by a function \<open>fails\<close> of the call and its arguments (\<open>True\<close> is a
  nonzero return). Pointers are opaque handles; what the engine stores behind them,
  pixel data included, is not modelled.
\<close>

type_synonym node = nat
  \<comment> \<open>a \<open>VSNode*\<close>; \<open>0\<close> is the null pointer\<close>

type_synonym frameCtx = nat
  \<comment> \<open>a \<open>VSFrameContext*\<close>: the request the error message is attached to\<close>

datatype frame = Frame node int
  \<comment> \<open>the \<open>VSFrame*\<close> that \<open>getFrameFilter(n, node, frameCtx)\<close> hands out\<close>

datatype picture = RefPic | DistPic
  \<comment> \<open>the two local \<open>VmafPicture\<close> objects \<open>ref\<close> and \<open>dist\<close> of vmafGetFrame\<close>

datatype VSColorFamily = cfUndefined | cfGray | cfRGB | cfYUV

datatype VSSampleType = stInteger | stFloat

datatype VSActivationReason = arError | arInitial | arAllFramesReady

datatype VmafPixelFormat =
  VMAF_PIX_FMT_UNKNOWN | VMAF_PIX_FMT_YUV420P | VMAF_PIX_FMT_YUV422P | VMAF_PIX_FMT_YUV444P

datatype VmafContext = NullContext | Context

datatype VmafPoolingMethod =
  VMAF_POOL_METHOD_UNKNOWN | VMAF_POOL_METHOD_MIN | VMAF_POOL_METHOD_MAX |
  VMAF_POOL_METHOD_MEAN | VMAF_POOL_METHOD_HARMONIC_MEAN

text \<open>
  A model handle is named by the call that wrote it: \<open>vmaf_model_load\<close> writes
  \<open>d->model[i]\<close>; \<open>vmaf_model_collection_load\<close> is passed the same slot
  \<open>&d->model[i]\<close> together with the new last slot of \<open>d->modelCollection\<close>, and
  on success both slots are taken to hold what it wrote. A call that fails is taken to
  leave its slots as they were. Which pointer a slot holds does not change which calls
  the source makes on it.
\<close>

datatype VmafModel = NullModel | Model string | CollectionModel string

datatype VmafModelCollection = NullCollection | Collection string

record VSVideoFormat =
  colorFamily :: VSColorFamily
  sampleType :: VSSampleType
  bitsPerSample :: int
  bytesPerSample :: int
  subSamplingW :: int
  subSamplingH :: int
  numPlanes :: int

record VSVideoInfo =
  format :: VSVideoFormat
  numFrames :: int
  width :: int
  height :: int

record VMAFData =
  filterName :: string
  reference :: node
  distorted :: node
  vi :: VSVideoInfo
  logPath :: string
  logFormat :: int
  model :: "VmafModel list"
  modelCollection :: "VmafModelCollection list"
  vmaf :: VmafContext
  pixelFormat :: VmafPixelFormat
  chroma :: bool

datatype event =
    RequestFrameFilter int node frameCtx
  | GetFrameFilter int node frameCtx
  | PictureAlloc picture VmafPixelFormat int int int
  | Bitblt picture int frame
  | ReadPictures "picture option" "picture option" int
  | SetFilterError string frameCtx
  | FreeFrame frame
  | PictureUnref picture
  | FreeNode node
  | LogMessage string
  | ScorePooled VmafModel VmafPoolingMethod int int
  | ScorePooledModelCollection VmafModelCollection VmafPoolingMethod int int
  | WriteOutput string int
  | ModelDestroy VmafModel
  | ModelCollectionDestroy VmafModelCollection
  | Close VmafContext
  | MapSetError string
  | VmafInit int int
  | CudaStateInit
  | CudaImportState
  | ModelLoad string string
  | ModelCollectionLoad string string
  | UseFeaturesFromModel VmafModel
  | UseFeaturesFromModelCollection VmafModelCollection
  | UseFeature string
  | CreateVideoFilter string

type_synonym engine = "event \<Rightarrow> bool"

section \<open>vmafGetFrame\<close>

text \<open>
  The plane loop of lines 83--100: \<open>plane\<close> runs from 0 while below \<open>numPlanes\<close>;
  a nonzero plane with the chroma flag clear leaves the loop; otherwise the plane is
  copied (\<open>vsh::bitblt\<close>) into \<open>ref\<close> and then into \<open>dist\<close>.
\<close>

function copy_planes :: "VMAFData \<Rightarrow> frame \<Rightarrow> frame \<Rightarrow> int \<Rightarrow> event list \<Rightarrow> event list" where
  "copy_planes d rf ds plane tr =
     (if plane < numPlanes (format (vi d)) then
        (if plane \<noteq> 0 \<and> \<not> chroma d then tr
         else copy_planes d rf ds (plane + 1)
                (tr @ [Bitblt RefPic plane rf, Bitblt DistPic plane ds]))
      else tr)"
  by pat_completeness auto
termination
  by (relation "measure (\<lambda>(d, rf, ds, plane, tr). nat (numPlanes (format (vi d)) - plane))") auto

declare copy_planes.simps [simp del]

definition alloc_call :: "VMAFData \<Rightarrow> picture \<Rightarrow> event" where
  "alloc_call d p =
     PictureAlloc p (pixelFormat d) (bitsPerSample (format (vi d))) (width (vi d)) (height (vi d))"

text \<open>
  The \<open>try\<close> block of lines 78--103. The result is the calls made and the thrown
  \<open>const char*\<close>, if any. The two allocations are joined by \<open>||\<close>: when the first one
  fails the second is not attempted.
\<close>

definition process_pictures ::
  "engine \<Rightarrow> VMAFData \<Rightarrow> int \<Rightarrow> frame \<Rightarrow> frame \<Rightarrow> event list \<times> string option" where
  "process_pictures fails d n rf ds =
     (if fails (alloc_call d RefPic) then
        ([alloc_call d RefPic], Some ''failed to allocate picture'')
      else if fails (alloc_call d DistPic) then
        ([alloc_call d RefPic, alloc_call d DistPic], Some ''failed to allocate picture'')
      else
        (let tr = copy_planes d rf ds 0 [alloc_call d RefPic, alloc_call d DistPic];
             rd = ReadPictures (Some RefPic) (Some DistPic) n
         in if fails rd then (tr @ [rd], Some ''failed to read pictures'')
            else (tr @ [rd], None)))"

text \<open>
  vmafGetFrame returns the calls it made and the frame it returns (\<open>None\<close> is
  \<open>nullptr\<close>).
\<close>

definition vmafGetFrame ::
  "engine \<Rightarrow> VMAFData \<Rightarrow> int \<Rightarrow> VSActivationReason \<Rightarrow> frameCtx \<Rightarrow> event list \<times> frame option" where
  "vmafGetFrame fails d n activationReason frameCtx =
     (if activationReason = arInitial then
        ([RequestFrameFilter n (reference d) frameCtx,
          RequestFrameFilter n (distorted d) frameCtx], None)
      else if activationReason = arAllFramesReady then
        (let rf = Frame (reference d) n;
             ds = Frame (distorted d) n;
             got = [GetFrameFilter n (reference d) frameCtx,
                    GetFrameFilter n (distorted d) frameCtx]
         in case process_pictures fails d n rf ds of
              (tr, Some error) \<Rightarrow>
                (got @ tr @
                   [SetFilterError (filterName d @ '': '' @ error) frameCtx,
                    FreeFrame rf, FreeFrame ds,
                    PictureUnref RefPic, PictureUnref DistPic], None)
            | (tr, None) \<Rightarrow> (got @ tr @ [FreeFrame ds], Some rf))
      else ([], None))"

section \<open>vmafFree\<close>

text \<open>
  \<open>logMessage\<close> (lines 129--131) is a function-local \<open>static\<close> closure that captures
  \<open>d\<close>, \<open>vsapi\<close> and \<open>core\<close> by reference. It is initialised by the first activation
  of vmafFree that reaches line 129 and keeps the references of that activation for the
  life of the process. \<open>bound\<close> says that the closure was initialised by another
  activation before this one reaches line 129: an earlier teardown, or one nested in
  this activation's \<open>freeNode\<close> calls (lines 126--127 come first). That activation has
  returned, so a call of the closure reads through dangling references: the behaviour
  is undefined, and the model stops there with \<open>Undefined\<close>. In the activation that
  initialises the closure the references are live and the message is logged with
  \<open>mtCritical\<close> under the filter's name. After any activation the closure is bound.
\<close>

datatype teardown = Completed | Undefined

text \<open>
  Lines 133--145 in order, each call with the message logged when it returns nonzero:
  the flush, the pooled score of every entry of \<open>d->model\<close>, then of every entry of
  \<open>d->modelCollection\<close>, the write of the log.
\<close>

definition checked_calls :: "VMAFData \<Rightarrow> (event \<times> string) list" where
  "checked_calls d =
     (ReadPictures None None 0, ''failed to flush context'')
     # map (\<lambda>m. (ScorePooled m VMAF_POOL_METHOD_MEAN 0 (numFrames (vi d) - 1),
                   ''failed to generate pooled VMAF score'')) (model d)
     @ map (\<lambda>m. (ScorePooledModelCollection m VMAF_POOL_METHOD_MEAN 0 (numFrames (vi d) - 1),
                   ''failed to generate pooled VMAF score'')) (modelCollection d)
     @ [(WriteOutput (logPath d) (logFormat d), ''failed to write VMAF stats'')]"

text \<open>
  \<open>if (call) logMessage(msg)\<close>, statement after statement: the call is made; on a
  nonzero return the closure is called, and execution goes on if that is defined.
\<close>

fun run_checked ::
  "engine \<Rightarrow> bool \<Rightarrow> string \<Rightarrow> (event \<times> string) list \<Rightarrow> event list \<times> teardown" where
  "run_checked fails bound name [] = ([], Completed)"
| "run_checked fails bound name ((call, msg) # rest) =
     (if fails call then
        (if bound then ([call], Undefined)
         else (case run_checked fails bound name rest of
                 (tr, r) \<Rightarrow> (call # LogMessage (name @ '': '' @ msg) # tr, r)))
      else (case run_checked fails bound name rest of
              (tr, r) \<Rightarrow> (call # tr, r)))"

text \<open>
  vmafFree: the two nodes are freed, the checked calls run, and then (lines 147--151)
  the models, the collections and the context are destroyed; the status of
  \<open>vmaf_close\<close> is not looked at.
\<close>

definition vmafFree :: "engine \<Rightarrow> bool \<Rightarrow> VMAFData \<Rightarrow> event list \<times> teardown" where
  "vmafFree fails bound d =
     (case run_checked fails bound (filterName d) (checked_calls d) of
        (tr, Undefined) \<Rightarrow>
          ([FreeNode (reference d), FreeNode (distorted d)] @ tr, Undefined)
      | (tr, Completed) \<Rightarrow>
          ([FreeNode (reference d), FreeNode (distorted d)] @ tr
           @ map ModelDestroy (model d)
           @ map ModelCollectionDestroy (modelCollection d)
           @ [Close (vmaf d)], Completed))"

section \<open>vmafCreate\<close>

definition modelName :: "string list" where
  "modelName = [''vmaf'', ''vmaf_neg'', ''vmaf_b'', ''vmaf_4k'']"

definition modelVersion :: "string list" where
  "modelVersion = [''vmaf_v0.6.1'', ''vmaf_v0.6.1neg'', ''vmaf_b_v0.6.3'', ''vmaf_4k_v0.6.1'']"

definition featureName :: "string list" where
  "featureName = [''psnr'', ''psnr_hvs'', ''float_ssim'', ''float_ms_ssim'', ''ciede'']"

text \<open>
  The values of \<open>enum VmafOutputFormat\<close> (libvmaf.h) that \<open>d->logFormat\<close> can take;
  \<open>d->logFormat\<close> is kept as the enumerator's integer value.
\<close>

definition VMAF_OUTPUT_FORMAT_XML :: int where "VMAF_OUTPUT_FORMAT_XML = 1"
definition VMAF_OUTPUT_FORMAT_JSON :: int where "VMAF_OUTPUT_FORMAT_JSON = 2"
definition VMAF_OUTPUT_FORMAT_CSV :: int where "VMAF_OUTPUT_FORMAT_CSV = 3"
definition VMAF_OUTPUT_FORMAT_SUB :: int where "VMAF_OUTPUT_FORMAT_SUB = 4"

text \<open>
  The argument map \<open>in\<close>, with the keys of the registered signature (lines 310--316):
  \<open>reference\<close>, \<open>distorted\<close> and \<open>log_path\<close> are required, the other three optional.
\<close>

record VSMap =
  arg_reference :: node
  arg_distorted :: node
  arg_log_path :: string
  arg_log_format :: "int option"
  arg_model :: "int list option"
  arg_feature :: "int list option"

record VSCore =
  videoInfo :: "node \<Rightarrow> VSVideoInfo"
  numThreads :: int

text \<open>
  The frame server's accessors (VapourSynth4.h): with an error pointer given, a missing
  key reads as 0 (\<open>mapGetIntSaturated\<close>, which also clamps the 64-bit value to
  \<open>int\<close>), as a null array (\<open>mapGetIntArray\<close>) and as \<open>-1\<close> elements
  (\<open>mapNumElements\<close>).
\<close>

definition int64ToIntS :: "int \<Rightarrow> int" where
  "int64ToIntS i = (if i > 2147483647 then 2147483647
                    else if i < - 2147483648 then - 2147483648 else i)"

definition mapGetIntSaturated :: "int option \<Rightarrow> int" where
  "mapGetIntSaturated v = (case v of None \<Rightarrow> 0 | Some i \<Rightarrow> int64ToIntS i)"

definition mapGetIntArray :: "int list option \<Rightarrow> int list" where
  "mapGetIntArray v = (case v of None \<Rightarrow> [] | Some xs \<Rightarrow> xs)"

definition mapNumElements :: "int list option \<Rightarrow> int" where
  "mapNumElements v = (case v of None \<Rightarrow> - 1 | Some xs \<Rightarrow> int (length xs))"

text \<open>The helpers of VSHelper4.h the source calls.\<close>

definition isConstantVideoFormat :: "VSVideoInfo \<Rightarrow> bool" where
  "isConstantVideoFormat v \<longleftrightarrow>
     height v > 0 \<and> width v > 0 \<and> colorFamily (format v) \<noteq> cfUndefined"

definition isSameVideoFormat :: "VSVideoFormat \<Rightarrow> VSVideoFormat \<Rightarrow> bool" where
  "isSameVideoFormat v1 v2 \<longleftrightarrow>
     colorFamily v1 = colorFamily v2 \<and> sampleType v1 = sampleType v2 \<and>
     bitsPerSample v1 = bitsPerSample v2 \<and>
     subSamplingW v1 = subSamplingW v2 \<and> subSamplingH v1 = subSamplingH v2"

definition isSameVideoInfo :: "VSVideoInfo \<Rightarrow> VSVideoInfo \<Rightarrow> bool" where
  "isSameVideoInfo v1 v2 \<longleftrightarrow>
     height v1 = height v2 \<and> width v1 = width v2 \<and> isSameVideoFormat (format v1) (format v2)"

text \<open>
  The source throws two kinds of values: \<open>std::string\<close> (a literal with the \<open>s\<close>
  suffix, or a concatenation) and \<open>const char*\<close> (a bare literal). The handler of
  vmafCreate is \<open>catch (const std::string&)\<close>, which a \<open>const char*\<close> does not match.
\<close>

datatype exn = StdString string | CharPtr string

type_synonym cstate = "VMAFData \<times> event list"

text \<open>Lines 169--187: the checks on the reference clip's format.\<close>

definition check_format :: "VSVideoInfo \<Rightarrow> exn option" where
  "check_format v =
     (if \<not> isConstantVideoFormat v \<or> colorFamily (format v) \<noteq> cfYUV \<or>
         sampleType (format v) \<noteq> stInteger
      then Some (CharPtr ''only constant YUV format integer input supported'')
      else if \<not> (bitsPerSample (format v) = 8 \<or> bitsPerSample (format v) = 10 \<or>
                  bitsPerSample (format v) = 12 \<or> bitsPerSample (format v) = 16)
      then Some (CharPtr ''only 8, 10, 12 and 16 bit depth supported'')
      else if \<not> ((subSamplingW (format v) = 1 \<and> subSamplingH (format v) = 1) \<or>
                  (subSamplingW (format v) = 1 \<and> subSamplingH (format v) = 0) \<or>
                  (subSamplingW (format v) = 0 \<and> subSamplingH (format v) = 0))
      then Some (StdString ''only 420/422/444 chroma subsampling is supported'')
      else None)"

text \<open>
  Lines 239--256, one model of the request: \<open>i\<close> is the slot of \<open>d->model\<close>, \<open>m\<close> the
  identifier, already checked to be within 0..3.
\<close>

definition resolve_model :: "engine \<Rightarrow> nat \<Rightarrow> int \<Rightarrow> cstate \<Rightarrow> cstate \<times> exn option" where
  "resolve_model fails i m st =
     (let d = fst st; tr = snd st;
          name = modelName ! nat m; version = modelVersion ! nat m;
          load = ModelLoad name version
      in if fails load then
           (let d1 = d\<lparr>modelCollection := modelCollection d @ [NullCollection]\<rparr>;
                cload = ModelCollectionLoad name version
            in if fails cload then
                 ((d1, tr @ [load, cload]),
                  Some (StdString (''failed to load model: '' @ version)))
               else
                 (let d2 = d1\<lparr>model := (model d1)[i := CollectionModel version],
                              modelCollection :=
                                (modelCollection d1)
                                  [length (modelCollection d1) - 1 := Collection version]\<rparr>;
                      use = UseFeaturesFromModelCollection (Collection version)
                  in if fails use then
                       ((d2, tr @ [load, cload, use]),
                        Some (StdString
                          (''failed to load feature extractors from model collection: ''
                             @ version)))
                     else ((d2, tr @ [load, cload, use]), None)))
         else
           (let d1 = d\<lparr>model := (model d)[i := Model version]\<rparr>;
                use = UseFeaturesFromModel (Model version)
            in if fails use then
                 ((d1, tr @ [load, use]),
                  Some (StdString
                    (''failed to load feature extractors from model: '' @ version)))
               else ((d1, tr @ [load, use]), None)))"

text \<open>
  The model loop, lines 232--257. \<open>ms\<close> is the array \<open>model\<close>, of \<open>numModels\<close>
  elements; \<open>std::count\<close> runs over those elements.
\<close>

function load_models ::
  "engine \<Rightarrow> int list \<Rightarrow> int \<Rightarrow> int \<Rightarrow> cstate \<Rightarrow> cstate \<times> exn option" where
  "load_models fails ms numModels i st =
     (if i < numModels then
        (if ms ! nat i < 0 \<or> ms ! nat i > 3 then
           (st, Some (StdString ''model must be 0, 1, 2, or 3''))
         else if count_list (take (nat numModels) ms) (ms ! nat i) > 1 then
           (st, Some (StdString ''duplicate model specified''))
         else
           (case resolve_model fails (nat i) (ms ! nat i) st of
              (st', Some e) \<Rightarrow> (st', Some e)
            | (st', None) \<Rightarrow> load_models fails ms numModels (i + 1) st'))
      else (st, None))"
  by pat_completeness auto
termination
  by (relation "measure (\<lambda>(fails, ms, numModels, i, st). nat (numModels - i))") auto

declare load_models.simps [simp del]

text \<open>The feature loop, lines 259--275.\<close>

function load_features ::
  "engine \<Rightarrow> int list \<Rightarrow> int \<Rightarrow> int \<Rightarrow> cstate \<Rightarrow> cstate \<times> exn option" where
  "load_features fails fs numFeatures i st =
     (if i < numFeatures then
        (if fs ! nat i < 0 \<or> fs ! nat i > 4 then
           (st, Some (StdString ''feature must be 0, 1, 2, 3, or 4''))
         else if count_list (take (nat numFeatures) fs) (fs ! nat i) > 1 then
           (st, Some (StdString ''duplicate feature specified''))
         else
           (let use = UseFeature (featureName ! nat (fs ! nat i))
            in if fails use then
                 ((fst st, snd st @ [use]),
                  Some (StdString (''failed to load feature extractor: ''
                                     @ featureName ! nat (fs ! nat i))))
               else
                 load_features fails fs numFeatures (i + 1)
                   ((if fs ! nat i = 0 \<or> fs ! nat i = 1 \<or> fs ! nat i = 4
                     then (fst st)\<lparr>chroma := True\<rparr> else fst st),
                    snd st @ [use])))
      else (st, None))"
  by pat_completeness auto
termination
  by (relation "measure (\<lambda>(fails, fs, numFeatures, i, st). nat (numFeatures - i))") auto

declare load_features.simps [simp del]

text \<open>Lines 277--282.\<close>

definition select_pixel_format :: "VSVideoFormat \<Rightarrow> VmafPixelFormat" where
  "select_pixel_format f =
     (if subSamplingW f = 1 \<and> subSamplingH f = 1 then VMAF_PIX_FMT_YUV420P
      else if subSamplingW f = 1 \<and> subSamplingH f = 0 then VMAF_PIX_FMT_YUV422P
      else VMAF_PIX_FMT_YUV444P)"

text \<open>
  \<open>std::make_unique<VMAFData>()\<close> value-initialises the object: null pointers, empty
  vectors and strings, \<open>chroma = false\<close>. \<open>reference\<close>, \<open>distorted\<close> and \<open>vi\<close> are
  assigned before anything can throw.
\<close>

definition new_VMAFData :: "string \<Rightarrow> node \<Rightarrow> node \<Rightarrow> VSVideoInfo \<Rightarrow> VMAFData" where
  "new_VMAFData name r ds v =
     \<lparr>filterName = name, reference = r, distorted = ds, vi = v, logPath = [],
      logFormat = 0, model = [], modelCollection = [], vmaf = NullContext,
      pixelFormat = VMAF_PIX_FMT_UNKNOWN, chroma = False\<rparr>"

text \<open>
  Lines 218--282, once the engine context is set up: the comparison of the two clips,
  the two loops and the pixel format.
\<close>

definition setup_models ::
  "engine \<Rightarrow> VSCore \<Rightarrow> VSMap \<Rightarrow> cstate \<Rightarrow> cstate \<times> exn option" where
  "setup_models fails core args st =
     (let d = fst st; tr = snd st in
      if \<not> isSameVideoInfo (videoInfo core (distorted d)) (vi d) then
        (st, Some (StdString ''both clips must have the same format and dimensions''))
      else if numFrames (videoInfo core (distorted d)) \<noteq> numFrames (vi d) then
        (st, Some (StdString ''both clips' number of frames do not match''))
      else
        (let ms = mapGetIntArray (arg_model args);
             numModels = mapNumElements (arg_model args);
             fs = mapGetIntArray (arg_feature args);
             numFeatures = mapNumElements (arg_feature args);
             d1 = (if numModels > 0 then d\<lparr>model := replicate (nat numModels) NullModel\<rparr>
                   else d)
         in case load_models fails ms numModels 0 (d1, tr) of
              (st1, Some e) \<Rightarrow> (st1, Some e)
            | (st1, None) \<Rightarrow>
                (case load_features fails fs numFeatures 0 st1 of
                   (st2, Some e) \<Rightarrow> (st2, Some e)
                 | (st2, None) \<Rightarrow>
                     (((fst st2)\<lparr>pixelFormat := select_pixel_format (format (vi (fst st2)))\<rparr>,
                       snd st2), None))))"

text \<open>The \<open>try\<close> block of vmafCreate, lines 159--282.\<close>

definition vmafCreate_try ::
  "engine \<Rightarrow> VSCore \<Rightarrow> VSMap \<Rightarrow> string \<Rightarrow> cstate \<times> exn option" where
  "vmafCreate_try fails core args userData =
     (let d0 = new_VMAFData userData (arg_reference args) (arg_distorted args)
                 (videoInfo core (arg_reference args))
      in case check_format (vi d0) of
           Some e \<Rightarrow> ((d0, []), Some e)
         | None \<Rightarrow>
             (let d1 = d0\<lparr>logPath := arg_log_path args\<rparr>;
                  lf = mapGetIntSaturated (arg_log_format args)
              in if lf < 0 \<or> lf > 3 then
                   ((d1, []), Some (StdString ''log_format must be 0, 1, 2, or 3''))
                 else
                   (let d2 = d1\<lparr>logFormat := lf + 1\<rparr>;
                        init = VmafInit (numThreads core) 1
                    in if fails init then
                         ((d2, [init]), Some (StdString ''failed to initialize VMAF context''))
                       else if fails CudaStateInit then
                         ((d2\<lparr>vmaf := Context\<rparr>, [init, CudaStateInit]),
                          Some (CharPtr ''problem during vmaf_cuda_state_init''))
                       else if fails CudaImportState then
                         ((d2\<lparr>vmaf := Context\<rparr>, [init, CudaStateInit, CudaImportState]),
                          Some (CharPtr ''problem during vmaf_cuda_import_state''))
                       else
                         setup_models fails core args
                           (d2\<lparr>vmaf := Context\<rparr>, [init, CudaStateInit, CudaImportState]))))"

text \<open>
  vmafCreate: a caught \<open>std::string\<close> sets the error on the output map and releases
  what \<open>d\<close> holds (lines 284--295); a \<open>const char*\<close> leaves the function through no
  handler; without exception the filter is created with \<open>d\<close> as its instance data.
\<close>

datatype outcome = Created VMAFData | Rejected string | Escaped exn

definition vmafCreate ::
  "engine \<Rightarrow> VSCore \<Rightarrow> VSMap \<Rightarrow> string \<Rightarrow> event list \<times> outcome" where
  "vmafCreate fails core args userData =
     (case vmafCreate_try fails core args userData of
        (st, Some (StdString error)) \<Rightarrow>
          (snd st
           @ [MapSetError (filterName (fst st) @ '': '' @ error),
              FreeNode (reference (fst st)), FreeNode (distorted (fst st))]
           @ map ModelDestroy (model (fst st))
           @ map ModelCollectionDestroy (modelCollection (fst st))
           @ [Close (vmaf (fst st))],
           Rejected (filterName (fst st) @ '': '' @ error))
      | (st, Some (CharPtr msg)) \<Rightarrow> (snd st, Escaped (CharPtr msg))
      | (st, None) \<Rightarrow>
          (snd st @ [CreateVideoFilter (filterName (fst st))], Created (fst st)))"

section \<open>Classifying the events of a trace\<close>

fun is_FreeFrame :: "event \<Rightarrow> bool" where
  "is_FreeFrame (FreeFrame f) = True"
| "is_FreeFrame e = False"

fun is_SetFilterError :: "event \<Rightarrow> bool" where
  "is_SetFilterError (SetFilterError msg c) = True"
| "is_SetFilterError e = False"

fun is_Bitblt :: "event \<Rightarrow> bool" where
  "is_Bitblt (Bitblt p q f) = True"
| "is_Bitblt e = False"

fun is_LogMessage :: "event \<Rightarrow> bool" where
  "is_LogMessage (LogMessage msg) = True"
| "is_LogMessage e = False"

fun is_ScorePooled :: "event \<Rightarrow> bool" where
  "is_ScorePooled (ScorePooled m p lo hi) = True"
| "is_ScorePooled e = False"

fun is_ScorePooledModelCollection :: "event \<Rightarrow> bool" where
  "is_ScorePooledModelCollection (ScorePooledModelCollection m p lo hi) = True"
| "is_ScorePooledModelCollection e = False"

text \<open>The calls of vmafFree whose status is tested.\<close>

fun is_checked :: "event \<Rightarrow> bool" where
  "is_checked (ReadPictures r ds n) = True"
| "is_checked (ScorePooled m p lo hi) = True"
| "is_checked (ScorePooledModelCollection m p lo hi) = True"
| "is_checked (WriteOutput p f) = True"
| "is_checked e = False"

section \<open>Notions used in the proofs\<close>

text \<open>
  The calls resolve_model makes for model \<open>m\<close>, the handle it leaves in the model's
  slot, and whether it ends without exception: each is read off the branches of
  resolve_model and is tied to it by the lemmas \<open>resolve_model_trace\<close>,
  \<open>resolve_model_slots\<close> and \<open>resolve_model_exn\<close>.
\<close>

definition model_calls :: "engine \<Rightarrow> int \<Rightarrow> event list" where
  "model_calls fails m =
     (if fails (ModelLoad (modelName ! nat m) (modelVersion ! nat m)) then
        (if fails (ModelCollectionLoad (modelName ! nat m) (modelVersion ! nat m)) then
           [ModelLoad (modelName ! nat m) (modelVersion ! nat m),
            ModelCollectionLoad (modelName ! nat m) (modelVersion ! nat m)]
         else
           [ModelLoad (modelName ! nat m) (modelVersion ! nat m),
            ModelCollectionLoad (modelName ! nat m) (modelVersion ! nat m),
            UseFeaturesFromModelCollection (Collection (modelVersion ! nat m))])
      else
        [ModelLoad (modelName ! nat m) (modelVersion ! nat m),
         UseFeaturesFromModel (Model (modelVersion ! nat m))])"

definition model_slot :: "engine \<Rightarrow> int \<Rightarrow> VmafModel" where
  "model_slot fails m =
     (if fails (ModelLoad (modelName ! nat m) (modelVersion ! nat m))
      then CollectionModel (modelVersion ! nat m) else Model (modelVersion ! nat m))"

definition model_resolves :: "engine \<Rightarrow> int \<Rightarrow> bool" where
  "model_resolves fails m \<longleftrightarrow>
     (if fails (ModelLoad (modelName ! nat m) (modelVersion ! nat m))
      then \<not> fails (ModelCollectionLoad (modelName ! nat m) (modelVersion ! nat m)) \<and>
           \<not> fails (UseFeaturesFromModelCollection (Collection (modelVersion ! nat m)))
      else \<not> fails (UseFeaturesFromModel (Model (modelVersion ! nat m))))"

text \<open>
  What a checked call adds to the trace of a teardown that goes on after it: the call,
  and the message when the call fails.
\<close>

definition logged :: "engine \<Rightarrow> string \<Rightarrow> event \<times> string \<Rightarrow> event list" where
  "logged fails name c =
     (if fails (fst c) then [fst c, LogMessage (name @ '': '' @ snd c)] else [fst c])"

text \<open>What both loops leave alone.\<close>

definition same_static :: "VMAFData \<Rightarrow> VMAFData \<Rightarrow> bool" where
  "same_static d d' \<longleftrightarrow>
     filterName d' = filterName d \<and> reference d' = reference d \<and>
     distorted d' = distorted d \<and> vi d' = vi d \<and> logPath d' = logPath d \<and>
     logFormat d' = logFormat d \<and> vmaf d' = vmaf d \<and> pixelFormat d' = pixelFormat d"

text \<open>
  Two properties of a trace, used as invariants of the loops: every collection load
  stands right after the failed singleton load of the same model; no collection load
  in the trace has failed.
\<close>

definition load_order :: "engine \<Rightarrow> event list \<Rightarrow> bool" where
  "load_order fails tr \<longleftrightarrow>
     (\<forall>n v. ModelCollectionLoad n v \<in> set tr \<longrightarrow>
        fails (ModelLoad n v) \<and>
        (\<exists>pre post. tr = pre @ ModelLoad n v # ModelCollectionLoad n v # post))"

definition no_failed_collection :: "engine \<Rightarrow> event list \<Rightarrow> bool" where
  "no_failed_collection fails tr \<longleftrightarrow>
     (\<forall>n v. ModelCollectionLoad n v \<in> set tr \<longrightarrow> \<not> fails (ModelCollectionLoad n v))"

text \<open>The exceptions the two loops can throw.\<close>

fun starts_with :: "string \<Rightarrow> string \<Rightarrow> bool" where
  "starts_with [] s = True"
| "starts_with (c # p) [] = False"
| "starts_with (c # p) (x # s) = (c = x \<and> starts_with p s)"

definition loop_error :: "exn \<Rightarrow> bool" where
  "loop_error e =
     (case e of
        StdString s \<Rightarrow>
          s = ''model must be 0, 1, 2, or 3'' \<or>
          s = ''duplicate model specified'' \<or>
          starts_with ''failed to load model: '' s \<or>
          starts_with ''failed to load feature extractors from model collection: '' s \<or>
          starts_with ''failed to load feature extractors from model: '' s \<or>
          s = ''feature must be 0, 1, 2, 3, or 4'' \<or>
          s = ''duplicate feature specified'' \<or>
          starts_with ''failed to load feature extractor: '' s
      | CharPtr s \<Rightarrow> False)"

section \<open>Example inputs\<close>

text \<open>
  Two 8-bit 4:2:0 clips of ten frames, 64 by 48; models 0 and 2 and features 2 and 4
  requested; \<open>ex_data\<close> is the instance data that results when \<open>vmaf_b_v0.6.3\<close> loads
  as a model collection.
\<close>

definition ex_format :: VSVideoFormat where
  "ex_format = \<lparr>colorFamily = cfYUV, sampleType = stInteger, bitsPerSample = 8,
                 bytesPerSample = 1, subSamplingW = 1, subSamplingH = 1, numPlanes = 3\<rparr>"

definition ex_vi :: VSVideoInfo where
  "ex_vi = \<lparr>format = ex_format, numFrames = 10, width = 64, height = 48\<rparr>"

definition ex_core :: VSCore where
  "ex_core = \<lparr>videoInfo = (\<lambda>n. ex_vi), numThreads = 4\<rparr>"

definition ex_args :: VSMap where
  "ex_args = \<lparr>arg_reference = 1, arg_distorted = 2, arg_log_path = ''log.xml'',
               arg_log_format = None, arg_model = Some [0, 2], arg_feature = Some [2, 4]\<rparr>"

definition ex_data :: VMAFData where
  "ex_data = \<lparr>filterName = ''VMAF'', reference = 1, distorted = 2, vi = ex_vi,
               logPath = ''log.xml'', logFormat = 1,
               model = [Model ''vmaf_v0.6.1'', CollectionModel ''vmaf_b_v0.6.3''],
               modelCollection = [Collection ''vmaf_b_v0.6.3''], vmaf = Context,
               pixelFormat = VMAF_PIX_FMT_YUV420P, chroma = True\<rparr>"

text \<open>An engine on which only the singleton load of \<open>vmaf_b_v0.6.3\<close> fails.\<close>

definition ex_engine :: engine where
  "ex_engine e = (e = ModelLoad ''vmaf_b'' ''vmaf_b_v0.6.3'')"

text \<open>An engine on which both loads of \<open>vmaf_b_v0.6.3\<close> fail.\<close>

definition ex_engine_both :: engine where
  "ex_engine_both e \<longleftrightarrow>
     e = ModelLoad ''vmaf_b'' ''vmaf_b_v0.6.3'' \<or> e = ModelCollectionLoad ''vmaf_b'' ''vmaf_b_v0.6.3''"

text \<open>The same clips at nine bits per sample.\<close>

definition ex_core_9bit :: VSCore where
  "ex_core_9bit =
     \<lparr>videoInfo = (\<lambda>n. ex_vi\<lparr>format := ex_format\<lparr>bitsPerSample := 9\<rparr>\<rparr>), numThreads = 4\<rparr>"

text \<open>The same clips with 4:1:1 subsampling.\<close>

definition ex_core_411 :: VSCore where
  "ex_core_411 =
     \<lparr>videoInfo = (\<lambda>n. ex_vi\<lparr>format := ex_format\<lparr>subSamplingW := 2, subSamplingH := 0\<rparr>\<rparr>),
      numThreads = 4\<rparr>"

text \<open>A distorted clip (node 2) half as wide as the reference.\<close>

definition ex_core_mismatch :: VSCore where
  "ex_core_mismatch =
     \<lparr>videoInfo = (\<lambda>n. if n = 2 then ex_vi\<lparr>width := 32\<rparr> else ex_vi), numThreads = 4\<rparr>"

text \<open>The three optional arguments left out.\<close>

definition ex_args_none :: VSMap where
  "ex_args_none = \<lparr>arg_reference = 1, arg_distorted = 2, arg_log_path = ''log.xml'',
                    arg_log_format = None, arg_model = None, arg_feature = None\<rparr>"

text \<open>Log format selector 1.\<close>

definition ex_args_json :: VSMap where
  "ex_args_json = ex_args\<lparr>arg_log_format := Some 1\<rparr>"

text \<open>Model 0 requested twice, not side by side.\<close>

definition ex_args_dup :: VSMap where
  "ex_args_dup = ex_args\<lparr>arg_model := Some [0, 2, 0]\<rparr>"

text \<open>A feature identifier past the table.\<close>

definition ex_args_feature5 :: VSMap where
  "ex_args_feature5 = ex_args\<lparr>arg_feature := Some [2, 5]\<rparr>"

text \<open>A log format selector past 3.\<close>

definition ex_args_format7 :: VSMap where
  "ex_args_format7 = ex_args\<lparr>arg_log_format := Some 7\<rparr>"

section \<open>The plane loop\<close>

lemma copy_planes_append:
  "\<exists>cs. copy_planes d rf ds p tr = tr @ cs \<and> list_all is_Bitblt cs"
proof (induction d rf ds p tr rule: copy_planes.induct)
  case (1 d rf ds plane tr)
  show ?case
  proof (cases "plane < numPlanes (format (vi d)) \<and> \<not> (plane \<noteq> 0 \<and> \<not> chroma d)")
    case True
    with 1 obtain cs where
      "copy_planes d rf ds (plane + 1) (tr @ [Bitblt RefPic plane rf, Bitblt DistPic plane ds])
         = (tr @ [Bitblt RefPic plane rf, Bitblt DistPic plane ds]) @ cs" "list_all is_Bitblt cs"
      by blast
    with True show ?thesis
      by (subst copy_planes.simps) auto
  next
    case False
    then show ?thesis
      by (subst copy_planes.simps) auto
  qed
qed

lemma set_copy_planes:
  "0 \<le> p \<Longrightarrow> set (copy_planes d rf ds p tr) =
     set tr \<union> {e. \<exists>q. p \<le> q \<and> q < numPlanes (format (vi d)) \<and> (q = 0 \<or> chroma d) \<and>
                     (e = Bitblt RefPic q rf \<or> e = Bitblt DistPic q ds)}"
proof (induction d rf ds p tr rule: copy_planes.induct)
  case (1 d rf ds plane tr)
  let ?C = "\<lambda>p. {e. \<exists>q. p \<le> q \<and> q < numPlanes (format (vi d)) \<and> (q = 0 \<or> chroma d) \<and>
                     (e = Bitblt RefPic q rf \<or> e = Bitblt DistPic q ds)}"
  consider (fin) "\<not> plane < numPlanes (format (vi d))"
    | (brk) "plane < numPlanes (format (vi d))" "plane \<noteq> 0" "\<not> chroma d"
    | (copy) "plane < numPlanes (format (vi d))" "plane = 0 \<or> chroma d"
    by blast
  then show ?case
  proof cases
    case fin
    then have "copy_planes d rf ds plane tr = tr"
      by (subst copy_planes.simps) simp
    with fin show ?thesis by auto
  next
    case brk
    then have "copy_planes d rf ds plane tr = tr"
      by (subst copy_planes.simps) simp
    with brk 1(2) show ?thesis by auto
  next
    case copy
    then have "copy_planes d rf ds plane tr =
        copy_planes d rf ds (plane + 1) (tr @ [Bitblt RefPic plane rf, Bitblt DistPic plane ds])"
      by (subst copy_planes.simps) auto
    moreover have "set (copy_planes d rf ds (plane + 1)
          (tr @ [Bitblt RefPic plane rf, Bitblt DistPic plane ds])) =
        set (tr @ [Bitblt RefPic plane rf, Bitblt DistPic plane ds]) \<union> ?C (plane + 1)"
      using copy 1 by auto
    moreover have "?C plane = {Bitblt RefPic plane rf, Bitblt DistPic plane ds} \<union> ?C (plane + 1)"
    proof -
      have split: "\<And>q. plane \<le> q \<longleftrightarrow> q = plane \<or> plane + 1 \<le> q" by auto
      show ?thesis using copy by (subst split) auto
    qed
    ultimately show ?thesis by auto
  qed
qed

lemma bitblt_only_count: "list_all is_Bitblt cs \<Longrightarrow> \<not> is_Bitblt e \<Longrightarrow> count_list cs e = 0"
  by (induction cs) auto

lemma bitblt_only_filter:
  "list_all is_Bitblt cs \<Longrightarrow> (\<And>e. is_Bitblt e \<Longrightarrow> \<not> P e) \<Longrightarrow> filter P cs = []"
  by (induction cs) auto

section \<open>Frame processing\<close>

text \<open>
  C1. When both pictures are allocated and the submission to the scoring context
  succeeds, vmafGetFrame returns the reference frame it fetched for index \<open>n\<close>; the
  only host frame it frees is the distorted one; it sets no error and unrefs no
  picture; the pair is submitted once, under index \<open>n\<close>.
\<close>

theorem vmafGetFrame_success:
  assumes "\<not> fails (alloc_call d RefPic)"
    and "\<not> fails (alloc_call d DistPic)"
    and "\<not> fails (ReadPictures (Some RefPic) (Some DistPic) n)"
  shows "snd (vmafGetFrame fails d n arAllFramesReady c) = Some (Frame (reference d) n) \<and>
         filter is_FreeFrame (fst (vmafGetFrame fails d n arAllFramesReady c))
           = [FreeFrame (Frame (distorted d) n)] \<and>
         filter is_SetFilterError (fst (vmafGetFrame fails d n arAllFramesReady c)) = [] \<and>
         PictureUnref RefPic \<notin> set (fst (vmafGetFrame fails d n arAllFramesReady c)) \<and>
         PictureUnref DistPic \<notin> set (fst (vmafGetFrame fails d n arAllFramesReady c)) \<and>
         count_list (fst (vmafGetFrame fails d n arAllFramesReady c))
           (ReadPictures (Some RefPic) (Some DistPic) n) = 1"
proof -
  obtain cs where cs: "copy_planes d (Frame (reference d) n) (Frame (distorted d) n) 0
      [alloc_call d RefPic, alloc_call d DistPic] = [alloc_call d RefPic, alloc_call d DistPic] @ cs"
    and b: "list_all is_Bitblt cs"
    using copy_planes_append by blast
  have f1: "filter is_FreeFrame cs = []" and f2: "filter is_SetFilterError cs = []"
    and f3: "PictureUnref RefPic \<notin> set cs" and f4: "PictureUnref DistPic \<notin> set cs"
    and f5: "count_list cs (ReadPictures (Some RefPic) (Some DistPic) n) = 0"
    using b by (induction cs; auto elim: is_Bitblt.elims)+
  show ?thesis
    using assms f1 f2 f3 f4 f5
    by (simp add: vmafGetFrame_def process_pictures_def Let_def cs) (simp add: alloc_call_def)
qed

theorem vmafGetFrame_success_witness:
  "\<not> ex_engine (alloc_call ex_data RefPic) \<and> \<not> ex_engine (alloc_call ex_data DistPic) \<and>
   \<not> ex_engine (ReadPictures (Some RefPic) (Some DistPic) 3) \<and>
   snd (vmafGetFrame ex_engine ex_data 3 arAllFramesReady 7) = Some (Frame 1 3) \<and>
   filter is_FreeFrame (fst (vmafGetFrame ex_engine ex_data 3 arAllFramesReady 7))
     = [FreeFrame (Frame 2 3)]"
  using vmafGetFrame_success [of ex_engine ex_data 3 7]
  by (simp add: ex_engine_def alloc_call_def ex_data_def)

text \<open>
  C2. When an allocation or the submission fails, vmafGetFrame returns no frame. Its
  last five calls attach the reason, under the filter's name, to the frame's context
  and release both host frames and both pictures; nothing before them reports or
  frees, and each engine call was made at most once (no retry). The caller sees the
  failure when the call returns, so the releases precede it.
\<close>

theorem vmafGetFrame_failure:
  assumes "fails (alloc_call d RefPic) \<or> fails (alloc_call d DistPic) \<or>
           fails (ReadPictures (Some RefPic) (Some DistPic) n)"
  shows "snd (vmafGetFrame fails d n arAllFramesReady c) = None \<and>
         (\<exists>pre. fst (vmafGetFrame fails d n arAllFramesReady c) =
            pre @ [SetFilterError
                     (filterName d @ '': '' @
                        (if fails (alloc_call d RefPic) \<or> fails (alloc_call d DistPic)
                         then ''failed to allocate picture'' else ''failed to read pictures'')) c,
                   FreeFrame (Frame (reference d) n), FreeFrame (Frame (distorted d) n),
                   PictureUnref RefPic, PictureUnref DistPic] \<and>
            filter is_SetFilterError pre = [] \<and>
            filter is_FreeFrame pre = [] \<and>
            count_list pre (alloc_call d RefPic) = 1 \<and>
            count_list pre (alloc_call d DistPic) \<le> 1 \<and>
            count_list pre (ReadPictures (Some RefPic) (Some DistPic) n) \<le> 1)"
proof -
  obtain cs where cs: "copy_planes d (Frame (reference d) n) (Frame (distorted d) n) 0
      [alloc_call d RefPic, alloc_call d DistPic] = [alloc_call d RefPic, alloc_call d DistPic] @ cs"
    and b: "list_all is_Bitblt cs"
    using copy_planes_append by blast
  have f1: "filter is_FreeFrame cs = []" and f2: "filter is_SetFilterError cs = []"
    using b by (auto intro!: bitblt_only_filter elim: is_Bitblt.elims)
  have f3: "count_list cs (alloc_call d RefPic) = 0"
    and f4: "count_list cs (alloc_call d DistPic) = 0"
    and f5: "count_list cs (ReadPictures (Some RefPic) (Some DistPic) n) = 0"
    using b by (simp_all add: bitblt_only_count alloc_call_def)
  have ne: "alloc_call d RefPic \<noteq> alloc_call d DistPic"
    "alloc_call d DistPic \<noteq> alloc_call d RefPic"
    "\<not> is_SetFilterError (alloc_call d p)" "\<not> is_FreeFrame (alloc_call d p)"
    "alloc_call d p \<noteq> ReadPictures (Some RefPic) (Some DistPic) n"
    "ReadPictures (Some RefPic) (Some DistPic) n \<noteq> alloc_call d p"
    "alloc_call d p \<noteq> GetFrameFilter n x c"
    "GetFrameFilter n x c \<noteq> alloc_call d p" for p x
    by (simp_all add: alloc_call_def)
  show ?thesis
    using assms f1 f2 f3 f4 f5 ne
    by (auto simp add: vmafGetFrame_def process_pictures_def Let_def cs)
qed

theorem vmafGetFrame_failure_witness:
  "(\<lambda>e. e = alloc_call ex_data DistPic) (alloc_call ex_data DistPic) \<and>
   vmafGetFrame (\<lambda>e. e = alloc_call ex_data DistPic) ex_data 3 arAllFramesReady 7 =
     ([GetFrameFilter 3 1 7, GetFrameFilter 3 2 7,
       alloc_call ex_data RefPic, alloc_call ex_data DistPic,
       SetFilterError ''VMAF: failed to allocate picture'' 7,
       FreeFrame (Frame 1 3), FreeFrame (Frame 2 3),
       PictureUnref RefPic, PictureUnref DistPic], None)"
proof -
  have "snd (vmafGetFrame (\<lambda>e. e = alloc_call ex_data DistPic) ex_data 3 arAllFramesReady 7)
          = None"
    using vmafGetFrame_failure [of "\<lambda>e. e = alloc_call ex_data DistPic" ex_data 3 7]
    by simp
  moreover have
    "fst (vmafGetFrame (\<lambda>e. e = alloc_call ex_data DistPic) ex_data 3 arAllFramesReady 7) =
       [GetFrameFilter 3 1 7, GetFrameFilter 3 2 7,
        alloc_call ex_data RefPic, alloc_call ex_data DistPic,
        SetFilterError ''VMAF: failed to allocate picture'' 7,
        FreeFrame (Frame 1 3), FreeFrame (Frame 2 3),
        PictureUnref RefPic, PictureUnref DistPic]"
    by (simp add: vmafGetFrame_def process_pictures_def alloc_call_def ex_data_def)
  ultimately show ?thesis
    by (simp add: prod_eq_iff)
qed

section \<open>Teardown\<close>

lemma run_checked_completes:
  "\<not> bound \<or> (\<forall>c \<in> set cs. \<not> fails (fst c)) \<Longrightarrow>
   run_checked fails bound name cs = (concat (map (logged fails name) cs), Completed)"
  by (induction cs) (auto simp: logged_def)

lemma vmafFree_completes:
  assumes "\<not> bound \<or> (\<forall>c \<in> set (checked_calls d). \<not> fails (fst c))"
  shows "vmafFree fails bound d =
           ([FreeNode (reference d), FreeNode (distorted d)]
            @ concat (map (logged fails (filterName d)) (checked_calls d))
            @ map ModelDestroy (model d)
            @ map ModelCollectionDestroy (modelCollection d)
            @ [Close (vmaf d)], Completed)"
  by (simp add: vmafFree_def run_checked_completes [OF assms])

lemma calls_of_checked_calls:
  "map fst (checked_calls d) =
     ReadPictures None None 0
     # map (\<lambda>m. ScorePooled m VMAF_POOL_METHOD_MEAN 0 (numFrames (vi d) - 1)) (model d)
     @ map (\<lambda>m. ScorePooledModelCollection m VMAF_POOL_METHOD_MEAN 0 (numFrames (vi d) - 1))
         (modelCollection d)
     @ [WriteOutput (logPath d) (logFormat d)]"
  by (simp add: checked_calls_def o_def)

lemma checked_calls_checked: "c \<in> set (checked_calls d) \<Longrightarrow> is_checked (fst c)"
  by (auto simp: checked_calls_def)

lemma filter_concat_logged:
  "(\<And>c. c \<in> set cs \<Longrightarrow> is_checked (fst c)) \<Longrightarrow>
   filter (\<lambda>e. \<not> is_LogMessage e) (concat (map (logged fails name) cs)) = map fst cs"
proof (induction cs)
  case Nil
  then show ?case by simp
next
  case (Cons c cs)
  then have "is_checked (fst c)" by simp
  then have "\<not> is_LogMessage (fst c)" by (cases "fst c") simp_all
  with Cons show ?case by (simp add: logged_def)
qed

lemma count_concat_logged:
  "(\<And>c. c \<in> set cs \<Longrightarrow> is_checked (fst c)) \<Longrightarrow>
   length (filter is_LogMessage (concat (map (logged fails name) cs))) =
   length (filter (\<lambda>e. is_checked e \<and> fails e) (concat (map (logged fails name) cs)))"
proof (induction cs)
  case Nil
  then show ?case by simp
next
  case (Cons c cs)
  then have "is_checked (fst c)" by simp
  then have "\<not> is_LogMessage (fst c)" by (cases "fst c") simp_all
  with Cons \<open>is_checked (fst c)\<close> show ?case by (simp add: logged_def)
qed

lemma prefix_concat_logged:
  assumes "e \<in> set (concat (map (logged fails name) cs))" and "is_LogMessage e"
    and "\<And>c. c \<in> set cs \<Longrightarrow> is_checked (fst c)"
  shows "\<exists>m. e = LogMessage (name @ '': '' @ m)"
proof -
  from assms(1) obtain c where c: "c \<in> set cs" and e: "e \<in> set (logged fails name c)"
    by auto
  from assms(3) [OF c] have "\<not> is_LogMessage (fst c)" by (cases "fst c") simp_all
  with e assms(2) show ?thesis by (auto simp: logged_def split: if_splits)
qed

text \<open>
  C3, as the code has it, for a teardown that is the first of its process or in which
  the flush, the extractions and the write all succeed. vmafFree runs to its end and
  its calls, in order, are: the two nodes freed, one flush
  \<open>vmaf_read_pictures(NULL, NULL, 0)\<close>, the mean-pooled score over
  \<open>[0, numFrames - 1]\<close> for every entry of \<open>d->model\<close> and then of
  \<open>d->modelCollection\<close>, the write of the log, the models, the collections and the
  context destroyed. Every failed flush, extraction or write is followed by one log
  message under the filter's name, and there are no other messages.
\<close>

theorem vmafFree_sequence:
  assumes "\<not> bound \<or> (\<forall>c \<in> set (checked_calls d). \<not> fails (fst c))"
  shows "snd (vmafFree fails bound d) = Completed \<and>
   filter (\<lambda>e. \<not> is_LogMessage e) (fst (vmafFree fails bound d)) =
     [FreeNode (reference d), FreeNode (distorted d), ReadPictures None None 0]
     @ map (\<lambda>m. ScorePooled m VMAF_POOL_METHOD_MEAN 0 (numFrames (vi d) - 1)) (model d)
     @ map (\<lambda>m. ScorePooledModelCollection m VMAF_POOL_METHOD_MEAN 0 (numFrames (vi d) - 1))
         (modelCollection d)
     @ [WriteOutput (logPath d) (logFormat d)]
     @ map ModelDestroy (model d)
     @ map ModelCollectionDestroy (modelCollection d)
     @ [Close (vmaf d)] \<and>
   length (filter is_LogMessage (fst (vmafFree fails bound d))) =
     length (filter (\<lambda>e. is_checked e \<and> fails e) (fst (vmafFree fails bound d))) \<and>
   (\<forall>e \<in> set (fst (vmafFree fails bound d)). is_LogMessage e \<longrightarrow>
      (\<exists>m. e = LogMessage (filterName d @ '': '' @ m)))"
proof (intro conjI)
  note eq = vmafFree_completes [OF assms]
  show "snd (vmafFree fails bound d) = Completed" by (simp add: eq)
  have m1: "filter is_LogMessage (map ModelDestroy xs) = []"
    and m2: "filter (\<lambda>e. is_checked e \<and> fails e) (map ModelDestroy xs) = []"
    and m3: "filter (\<lambda>e. \<not> is_LogMessage e) (map ModelDestroy xs) = map ModelDestroy xs" for xs
    by (induction xs) simp_all
  have c1: "filter is_LogMessage (map ModelCollectionDestroy ys) = []"
    and c2: "filter (\<lambda>e. is_checked e \<and> fails e) (map ModelCollectionDestroy ys) = []"
    and c3: "filter (\<lambda>e. \<not> is_LogMessage e) (map ModelCollectionDestroy ys)
               = map ModelCollectionDestroy ys" for ys
    by (induction ys) simp_all
  show "filter (\<lambda>e. \<not> is_LogMessage e) (fst (vmafFree fails bound d)) =
     [FreeNode (reference d), FreeNode (distorted d), ReadPictures None None 0]
     @ map (\<lambda>m. ScorePooled m VMAF_POOL_METHOD_MEAN 0 (numFrames (vi d) - 1)) (model d)
     @ map (\<lambda>m. ScorePooledModelCollection m VMAF_POOL_METHOD_MEAN 0 (numFrames (vi d) - 1))
         (modelCollection d)
     @ [WriteOutput (logPath d) (logFormat d)]
     @ map ModelDestroy (model d)
     @ map ModelCollectionDestroy (modelCollection d)
     @ [Close (vmaf d)]"
    by (simp add: eq filter_concat_logged [OF checked_calls_checked] calls_of_checked_calls m3 c3)
  show "length (filter is_LogMessage (fst (vmafFree fails bound d))) =
     length (filter (\<lambda>e. is_checked e \<and> fails e) (fst (vmafFree fails bound d)))"
    by (simp add: eq count_concat_logged [OF checked_calls_checked] m1 m2 c1 c2)
  show "\<forall>e \<in> set (fst (vmafFree fails bound d)). is_LogMessage e \<longrightarrow>
      (\<exists>m. e = LogMessage (filterName d @ '': '' @ m))"
  proof (intro ballI impI)
    fix e
    assume e: "e \<in> set (fst (vmafFree fails bound d))" and l: "is_LogMessage e"
    then have "e \<in> set (concat (map (logged fails (filterName d)) (checked_calls d)))"
      by (auto simp: eq)
    from prefix_concat_logged [OF this l checked_calls_checked]
    show "\<exists>m. e = LogMessage (filterName d @ '': '' @ m)" .
  qed
qed

theorem vmafFree_sequence_witness:
  "\<not> False \<and>
   snd (vmafFree (\<lambda>e. True) False ex_data) = Completed \<and>
   LogMessage ''VMAF: failed to flush context'' \<in> set (fst (vmafFree (\<lambda>e. True) False ex_data)) \<and>
   is_LogMessage (LogMessage ''VMAF: failed to flush context'') \<and>
   (\<exists>m. LogMessage ''VMAF: failed to flush context'' = LogMessage (filterName ex_data @ '': '' @ m)) \<and>
   length (filter is_LogMessage (fst (vmafFree (\<lambda>e. True) False ex_data))) = 5 \<and>
   list_all (\<lambda>c. \<not> (\<lambda>e. False) (fst c)) (checked_calls ex_data) \<and>
   vmafFree (\<lambda>e. False) True ex_data =
     ([FreeNode 1, FreeNode 2, ReadPictures None None 0,
       ScorePooled (Model ''vmaf_v0.6.1'') VMAF_POOL_METHOD_MEAN 0 9,
       ScorePooled (CollectionModel ''vmaf_b_v0.6.3'') VMAF_POOL_METHOD_MEAN 0 9,
       ScorePooledModelCollection (Collection ''vmaf_b_v0.6.3'') VMAF_POOL_METHOD_MEAN 0 9,
       WriteOutput ''log.xml'' 1,
       ModelDestroy (Model ''vmaf_v0.6.1''), ModelDestroy (CollectionModel ''vmaf_b_v0.6.3''),
       ModelCollectionDestroy (Collection ''vmaf_b_v0.6.3''), Close Context], Completed)"
  using vmafFree_sequence [of False ex_data "\<lambda>e. True"]
    vmafFree_sequence [of True ex_data "\<lambda>e. False"]
  by (simp add: vmafFree_def checked_calls_def ex_data_def ex_vi_def)

text \<open>
  C3 as stated has the flush carry the last frame index, and every step's failure
  logged. For the ten-frame example the last index is 9; the flush is submitted under
  index 0 and no call carries 9. When \<open>vmaf_close\<close>, the last step, is the call that
  fails, nothing is logged.
\<close>

theorem vmafFree_flush_index_counterexample:
  "numFrames (vi ex_data) - 1 = 9 \<and>
   ReadPictures None None 9 \<notin> set (fst (vmafFree (\<lambda>e. False) False ex_data)) \<and>
   ReadPictures None None 0 \<in> set (fst (vmafFree (\<lambda>e. False) False ex_data)) \<and>
   Close Context \<in> set (fst (vmafFree (\<lambda>e. e = Close Context) False ex_data)) \<and>
   filter is_LogMessage (fst (vmafFree (\<lambda>e. e = Close Context) False ex_data)) = []"
  by (simp add: vmafFree_def checked_calls_def ex_data_def ex_vi_def)

text \<open>
  A teardown after the closure was bound, with a flush that fails: the closure is
  called through the references of an activation that has returned, and nothing after
  the flush is defined.
\<close>

lemma later_teardown_failed_flush:
  "vmafFree (\<lambda>e. e = ReadPictures None None 0) True ex_data =
     ([FreeNode 1, FreeNode 2, ReadPictures None None 0], Undefined)"
  by (simp add: vmafFree_def checked_calls_def ex_data_def)

section \<open>The two loops of vmafCreate\<close>

lemma resolve_model_trace:
  "snd (fst (resolve_model fails i m st)) = snd st @ model_calls fails m"
  by (simp add: resolve_model_def model_calls_def Let_def)

lemma resolve_model_exn:
  "snd (resolve_model fails i m st) = None \<longleftrightarrow> model_resolves fails m"
  by (simp add: resolve_model_def model_resolves_def Let_def)

lemma resolve_model_static:
  "filterName (fst (fst (resolve_model fails i m st))) = filterName (fst st) \<and>
   reference (fst (fst (resolve_model fails i m st))) = reference (fst st) \<and>
   distorted (fst (fst (resolve_model fails i m st))) = distorted (fst st) \<and>
   vi (fst (fst (resolve_model fails i m st))) = vi (fst st) \<and>
   logPath (fst (fst (resolve_model fails i m st))) = logPath (fst st) \<and>
   logFormat (fst (fst (resolve_model fails i m st))) = logFormat (fst st) \<and>
   vmaf (fst (fst (resolve_model fails i m st))) = vmaf (fst st) \<and>
   pixelFormat (fst (fst (resolve_model fails i m st))) = pixelFormat (fst st) \<and>
   chroma (fst (fst (resolve_model fails i m st))) = chroma (fst st) \<and>
   length (model (fst (fst (resolve_model fails i m st)))) = length (model (fst st))"
  by (simp add: resolve_model_def Let_def)

lemma resolve_model_slots:
  "snd (resolve_model fails i m st) = None \<Longrightarrow>
   model (fst (fst (resolve_model fails i m st))) = (model (fst st))[i := model_slot fails m] \<and>
   modelCollection (fst (fst (resolve_model fails i m st))) =
     modelCollection (fst st) @
       (if fails (ModelLoad (modelName ! nat m) (modelVersion ! nat m))
        then [Collection (modelVersion ! nat m)] else [])"
  by (simp add: resolve_model_def model_slot_def Let_def split: if_splits)

lemma resolve_model_error:
  "snd (resolve_model fails i m st) = Some e \<Longrightarrow>
   (e = StdString (''failed to load model: '' @ modelVersion ! nat m) \<and>
      fails (ModelLoad (modelName ! nat m) (modelVersion ! nat m)) \<and>
      fails (ModelCollectionLoad (modelName ! nat m) (modelVersion ! nat m))) \<or>
   (e = StdString (''failed to load feature extractors from model collection: ''
                     @ modelVersion ! nat m) \<and>
      \<not> fails (ModelCollectionLoad (modelName ! nat m) (modelVersion ! nat m))) \<or>
   (e = StdString (''failed to load feature extractors from model: '' @ modelVersion ! nat m) \<and>
      \<not> fails (ModelLoad (modelName ! nat m) (modelVersion ! nat m)))"
  by (simp add: resolve_model_def Let_def split: if_splits)

text \<open>One unfolding of each loop.\<close>

lemma load_models_exit: "\<not> i < N \<Longrightarrow> load_models fails ms N i st = (st, None)"
  by (subst load_models.simps) simp

lemma load_models_step:
  "i < N \<Longrightarrow> load_models fails ms N i st =
     (if ms ! nat i < 0 \<or> ms ! nat i > 3 then
        (st, Some (StdString ''model must be 0, 1, 2, or 3''))
      else if count_list (take (nat N) ms) (ms ! nat i) > 1 then
        (st, Some (StdString ''duplicate model specified''))
      else if snd (resolve_model fails (nat i) (ms ! nat i) st) = None then
        load_models fails ms N (i + 1) (fst (resolve_model fails (nat i) (ms ! nat i) st))
      else resolve_model fails (nat i) (ms ! nat i) st)"
  by (subst load_models.simps) (auto split: prod.splits option.splits)

lemma load_features_exit: "\<not> i < N \<Longrightarrow> load_features fails fs N i st = (st, None)"
  by (subst load_features.simps) simp

lemma load_features_step:
  "i < N \<Longrightarrow> load_features fails fs N i st =
     (if fs ! nat i < 0 \<or> fs ! nat i > 4 then
        (st, Some (StdString ''feature must be 0, 1, 2, 3, or 4''))
      else if count_list (take (nat N) fs) (fs ! nat i) > 1 then
        (st, Some (StdString ''duplicate feature specified''))
      else if fails (UseFeature (featureName ! nat (fs ! nat i))) then
        ((fst st, snd st @ [UseFeature (featureName ! nat (fs ! nat i))]),
         Some (StdString (''failed to load feature extractor: ''
                            @ featureName ! nat (fs ! nat i))))
      else
        load_features fails fs N (i + 1)
          ((if fs ! nat i = 0 \<or> fs ! nat i = 1 \<or> fs ! nat i = 4
            then (fst st)\<lparr>chroma := True\<rparr> else fst st),
           snd st @ [UseFeature (featureName ! nat (fs ! nat i))]))"
  by (subst load_features.simps) (simp add: Let_def)

text \<open>What both loops leave alone.\<close>

lemma same_static_refl: "same_static d d"
  by (simp add: same_static_def)

lemma same_static_trans: "same_static a b \<Longrightarrow> same_static b c \<Longrightarrow> same_static a c"
  by (simp add: same_static_def)

lemma resolve_model_same_static:
  "same_static (fst st) (fst (fst (resolve_model fails i m st)))"
  using resolve_model_static [of fails i m st] by (simp add: same_static_def)

lemma load_models_static:
  "same_static (fst st) (fst (fst (load_models fails ms N i st))) \<and>
   chroma (fst (fst (load_models fails ms N i st))) = chroma (fst st) \<and>
   length (model (fst (fst (load_models fails ms N i st)))) = length (model (fst st))"
proof (induction "nat (N - i)" arbitrary: i st)
  case 0
  then have "\<not> i < N" by simp
  then show ?case by (simp add: load_models_exit same_static_refl)
next
  case (Suc k)
  then have lt: "i < N" and k: "k = nat (N - (i + 1))" by simp_all
  note IH = Suc.hyps(1) [OF k, of "fst (resolve_model fails (nat i) (ms ! nat i) st)"]
  show ?case
    using IH resolve_model_static [of fails "nat i" "ms ! nat i" st]
      resolve_model_same_static [of st fails "nat i" "ms ! nat i"]
    by (auto simp add: load_models_step [OF lt] same_static_refl intro: same_static_trans)
qed

lemma load_features_static:
  "same_static (fst st) (fst (fst (load_features fails fs N i st))) \<and>
   model (fst (fst (load_features fails fs N i st))) = model (fst st) \<and>
   modelCollection (fst (fst (load_features fails fs N i st))) = modelCollection (fst st)"
proof (induction "nat (N - i)" arbitrary: i st)
  case 0
  then have "\<not> i < N" by simp
  then show ?case by (simp add: load_features_exit same_static_refl)
next
  case (Suc k)
  then have lt: "i < N" and k: "k = nat (N - (i + 1))" by simp_all
  note IH = Suc.hyps(1) [OF k]
  show ?case
    using IH [of "((fst st)\<lparr>chroma := True\<rparr>, snd st @ [UseFeature (featureName ! nat (fs ! nat i))])"]
      IH [of "(fst st, snd st @ [UseFeature (featureName ! nat (fs ! nat i))])"]
    by (auto simp add: load_features_step [OF lt] same_static_def)
qed

text \<open>The requested arrays, as the loops see them.\<close>

lemma map_args:
  "take (nat (mapNumElements v)) (mapGetIntArray v) = mapGetIntArray v"
  "mapNumElements v \<le> int (length (mapGetIntArray v))"
  by (simp_all add: mapNumElements_def mapGetIntArray_def split: option.splits)

lemma load_models_success:
  assumes "snd (load_models fails ms N i st) = None"
    and "0 \<le> i" and "take (nat N) ms = ms" and "N \<le> int (length ms)"
    and "length (model (fst st)) = length ms"
  shows "snd (fst (load_models fails ms N i st)) =
           snd st @ concat (map (model_calls fails) (drop (nat i) ms)) \<and>
         model (fst (fst (load_models fails ms N i st))) =
           take (nat i) (model (fst st)) @ map (model_slot fails) (drop (nat i) ms) \<and>
         modelCollection (fst (fst (load_models fails ms N i st))) =
           modelCollection (fst st) @
             map (\<lambda>m. Collection (modelVersion ! nat m))
               (filter (\<lambda>m. fails (ModelLoad (modelName ! nat m) (modelVersion ! nat m)))
                  (drop (nat i) ms)) \<and>
         (\<forall>m \<in> set (drop (nat i) ms).
            0 \<le> m \<and> m \<le> 3 \<and> count_list ms m \<le> 1 \<and> model_resolves fails m)"
  using assms
proof (induction "nat (N - i)" arbitrary: i st)
  case 0
  then have nlt: "\<not> i < N" by simp
  from 0 have "length ms \<le> nat N"
    by (metis length_take min.cobounded2 min.commute)
  with nlt 0 have "length ms \<le> nat i" by linarith
  with 0 nlt show ?case by (simp add: load_models_exit)
next
  case (Suc k)
  then have lt: "i < N" and k: "k = nat (N - (i + 1))" by simp_all
  let ?m = "ms ! nat i"
  let ?r = "resolve_model fails (nat i) ?m st"
  from lt Suc.prems have il: "nat i < length ms" by linarith
  have dr: "drop (nat i) ms = ?m # drop (nat (i + 1)) ms"
    using il Suc.prems(2) by (simp add: Cons_nth_drop_Suc nat_add_distrib)
  from Suc.prems(1) lt have range: "0 \<le> ?m" "?m \<le> 3"
    and cnt: "count_list ms ?m \<le> 1"
    and ok: "snd ?r = None"
    and rest: "snd (load_models fails ms N (i + 1) (fst ?r)) = None"
    and eq: "load_models fails ms N i st = load_models fails ms N (i + 1) (fst ?r)"
    using Suc.prems(3) by (auto simp add: load_models_step split: if_splits)
  have len: "length (model (fst (fst ?r))) = length ms"
    using resolve_model_static [of fails "nat i" ?m st] Suc.prems(5) by simp
  note IH = Suc.hyps(1) [OF k rest _ Suc.prems(3) Suc.prems(4) len]
  have nat1: "nat (i + 1) = Suc (nat i)" using Suc.prems(2) by simp
  have tk: "take (nat (i + 1)) ((model (fst st))[nat i := model_slot fails ?m]) =
            take (nat i) (model (fst st)) @ [model_slot fails ?m]"
    using il Suc.prems(5) by (simp add: nat1 take_Suc_conv_app_nth)
  show ?case
    using IH Suc.prems(2) range cnt ok resolve_model_slots [OF ok]
      resolve_model_trace [of fails "nat i" ?m st]
    by (simp add: eq dr tk resolve_model_exn)
qed

lemma load_features_success:
  assumes "snd (load_features fails fs N i st) = None"
    and "0 \<le> i" and "take (nat N) fs = fs" and "N \<le> int (length fs)"
  shows "snd (fst (load_features fails fs N i st)) =
           snd st @ map (\<lambda>f. UseFeature (featureName ! nat f)) (drop (nat i) fs) \<and>
         (chroma (fst (fst (load_features fails fs N i st))) \<longleftrightarrow>
            chroma (fst st) \<or> (\<exists>f \<in> set (drop (nat i) fs). f = 0 \<or> f = 1 \<or> f = 4)) \<and>
         (\<forall>f \<in> set (drop (nat i) fs).
            0 \<le> f \<and> f \<le> 4 \<and> count_list fs f \<le> 1 \<and>
            \<not> fails (UseFeature (featureName ! nat f)))"
  using assms
proof (induction "nat (N - i)" arbitrary: i st)
  case 0
  then have nlt: "\<not> i < N" by simp
  from 0 have "length fs \<le> nat N"
    by (metis length_take min.cobounded2 min.commute)
  with nlt 0 have "length fs \<le> nat i" by linarith
  with 0 nlt show ?case by (simp add: load_features_exit)
next
  case (Suc k)
  then have lt: "i < N" and k: "k = nat (N - (i + 1))" by simp_all
  let ?f = "fs ! nat i"
  let ?st = "((if ?f = 0 \<or> ?f = 1 \<or> ?f = 4 then (fst st)\<lparr>chroma := True\<rparr> else fst st),
              snd st @ [UseFeature (featureName ! nat ?f)])"
  from lt Suc.prems have il: "nat i < length fs" by linarith
  have dr: "drop (nat i) fs = ?f # drop (nat (i + 1)) fs"
    using il Suc.prems(2) by (simp add: Cons_nth_drop_Suc nat_add_distrib)
  from Suc.prems(1) lt have range: "0 \<le> ?f" "?f \<le> 4"
    and cnt: "count_list fs ?f \<le> 1"
    and ok: "\<not> fails (UseFeature (featureName ! nat ?f))"
    and rest: "snd (load_features fails fs N (i + 1) ?st) = None"
    and eq: "load_features fails fs N i st = load_features fails fs N (i + 1) ?st"
    using Suc.prems(3) by (auto simp add: load_features_step split: if_splits)
  note IH = Suc.hyps(1) [OF k rest _ Suc.prems(3) Suc.prems(4)]
  show ?case
    using IH Suc.prems(2) range cnt ok
    by (auto simp add: eq dr)
qed

lemma setup_models_success:
  assumes ok: "snd (setup_models fails core args st) = None"
    and empty: "model (fst st) = []" "modelCollection (fst st) = []"
  shows "isSameVideoInfo (videoInfo core (distorted (fst st))) (vi (fst st))"
    and "numFrames (videoInfo core (distorted (fst st))) = numFrames (vi (fst st))"
    and "snd (fst (setup_models fails core args st)) =
           snd st @ concat (map (model_calls fails) (mapGetIntArray (arg_model args)))
                  @ map (\<lambda>f. UseFeature (featureName ! nat f)) (mapGetIntArray (arg_feature args))"
    and "model (fst (fst (setup_models fails core args st))) =
           map (model_slot fails) (mapGetIntArray (arg_model args))"
    and "modelCollection (fst (fst (setup_models fails core args st))) =
           map (\<lambda>m. Collection (modelVersion ! nat m))
             (filter (\<lambda>m. fails (ModelLoad (modelName ! nat m) (modelVersion ! nat m)))
                (mapGetIntArray (arg_model args)))"
    and "chroma (fst (fst (setup_models fails core args st))) \<longleftrightarrow>
           chroma (fst st) \<or> (\<exists>f \<in> set (mapGetIntArray (arg_feature args)). f = 0 \<or> f = 1 \<or> f = 4)"
    and "pixelFormat (fst (fst (setup_models fails core args st))) =
           select_pixel_format (format (vi (fst st)))"
    and "filterName (fst (fst (setup_models fails core args st))) = filterName (fst st)"
    and "reference (fst (fst (setup_models fails core args st))) = reference (fst st)"
    and "distorted (fst (fst (setup_models fails core args st))) = distorted (fst st)"
    and "vi (fst (fst (setup_models fails core args st))) = vi (fst st)"
    and "logPath (fst (fst (setup_models fails core args st))) = logPath (fst st)"
    and "logFormat (fst (fst (setup_models fails core args st))) = logFormat (fst st)"
    and "vmaf (fst (fst (setup_models fails core args st))) = vmaf (fst st)"
    and "\<forall>m \<in> set (mapGetIntArray (arg_model args)).
           0 \<le> m \<and> m \<le> 3 \<and> count_list (mapGetIntArray (arg_model args)) m \<le> 1 \<and>
           model_resolves fails m"
    and "\<forall>f \<in> set (mapGetIntArray (arg_feature args)).
           0 \<le> f \<and> f \<le> 4 \<and> count_list (mapGetIntArray (arg_feature args)) f \<le> 1 \<and>
           \<not> fails (UseFeature (featureName ! nat f))"
proof -
  let ?ms = "mapGetIntArray (arg_model args)"
  let ?N = "mapNumElements (arg_model args)"
  let ?fs = "mapGetIntArray (arg_feature args)"
  let ?NF = "mapNumElements (arg_feature args)"
  let ?d1 = "if ?N > 0 then (fst st)\<lparr>model := replicate (nat ?N) NullModel\<rparr> else fst st"
  let ?L = "load_models fails ?ms ?N 0 (?d1, snd st)"
  let ?F = "load_features fails ?fs ?NF 0 (fst ?L)"
  from ok show same: "isSameVideoInfo (videoInfo core (distorted (fst st))) (vi (fst st))"
    and nf: "numFrames (videoInfo core (distorted (fst st))) = numFrames (vi (fst st))"
    by (auto simp: setup_models_def Let_def split: if_splits)
  from ok same nf have l: "snd ?L = None"
    by (auto simp: setup_models_def Let_def split: if_splits prod.splits option.splits)
  from ok same nf l have f: "snd ?F = None"
    by (auto simp: setup_models_def Let_def split: if_splits prod.splits option.splits)
  from same nf l f have eq: "fst (setup_models fails core args st) =
      ((fst (fst ?F))\<lparr>pixelFormat := select_pixel_format (format (vi (fst (fst ?F))))\<rparr>,
       snd (fst ?F))"
    by (auto simp: setup_models_def Let_def split: if_splits prod.splits option.splits)
  have len: "length (model (fst (?d1, snd st))) = length ?ms"
    using empty by (auto simp: mapNumElements_def mapGetIntArray_def split: option.splits)
  note LS = load_models_success [OF l _ map_args(1) map_args(2) len, simplified]
  note FS = load_features_success [OF f _ map_args(1) map_args(2), simplified]
  note LT = load_models_static [of "(?d1, snd st)" fails ?ms ?N 0]
  note FT = load_features_static [of "fst ?L" fails ?fs ?NF 0]
  have s1: "same_static (fst st) ?d1" "chroma ?d1 = chroma (fst st)"
    "modelCollection ?d1 = []"
    using empty by (simp_all add: same_static_def)
  have st: "same_static (fst st) (fst (fst ?F))"
    using LT FT s1 by (auto intro: same_static_trans)
  show "snd (fst (setup_models fails core args st)) =
           snd st @ concat (map (model_calls fails) ?ms)
                  @ map (\<lambda>f. UseFeature (featureName ! nat f)) ?fs"
    using LS FS by (simp add: eq)
  show "model (fst (fst (setup_models fails core args st))) = map (model_slot fails) ?ms"
    using LS FT by (simp add: eq)
  show "modelCollection (fst (fst (setup_models fails core args st))) =
           map (\<lambda>m. Collection (modelVersion ! nat m))
             (filter (\<lambda>m. fails (ModelLoad (modelName ! nat m) (modelVersion ! nat m))) ?ms)"
    using LS FT s1 by (simp add: eq)
  show "chroma (fst (fst (setup_models fails core args st))) \<longleftrightarrow>
           chroma (fst st) \<or> (\<exists>f \<in> set ?fs. f = 0 \<or> f = 1 \<or> f = 4)"
    using FS LT s1 by (simp add: eq)
  show "pixelFormat (fst (fst (setup_models fails core args st))) =
           select_pixel_format (format (vi (fst st)))"
    "filterName (fst (fst (setup_models fails core args st))) = filterName (fst st)"
    "reference (fst (fst (setup_models fails core args st))) = reference (fst st)"
    "distorted (fst (fst (setup_models fails core args st))) = distorted (fst st)"
    "vi (fst (fst (setup_models fails core args st))) = vi (fst st)"
    "logPath (fst (fst (setup_models fails core args st))) = logPath (fst st)"
    "logFormat (fst (fst (setup_models fails core args st))) = logFormat (fst st)"
    "vmaf (fst (fst (setup_models fails core args st))) = vmaf (fst st)"
    using st by (simp_all add: eq same_static_def)
  show "\<forall>m \<in> set ?ms. 0 \<le> m \<and> m \<le> 3 \<and> count_list ?ms m \<le> 1 \<and> model_resolves fails m"
    using LS by simp
  show "\<forall>f \<in> set ?fs. 0 \<le> f \<and> f \<le> 4 \<and> count_list ?fs f \<le> 1 \<and>
           \<not> fails (UseFeature (featureName ! nat f))"
    using FS by simp
qed

text \<open>The try block ends without exception only through setup_models.\<close>

lemma vmafCreate_try_success:
  assumes ok: "snd (vmafCreate_try fails core args userData) = None"
  shows "check_format (videoInfo core (arg_reference args)) = None"
    and "0 \<le> mapGetIntSaturated (arg_log_format args)"
    and "mapGetIntSaturated (arg_log_format args) \<le> 3"
    and "\<not> fails (VmafInit (numThreads core) 1)"
    and "\<not> fails CudaStateInit" and "\<not> fails CudaImportState"
    and "vmafCreate_try fails core args userData =
           setup_models fails core args
             ((new_VMAFData userData (arg_reference args) (arg_distorted args)
                 (videoInfo core (arg_reference args)))
                \<lparr>logPath := arg_log_path args,
                 logFormat := mapGetIntSaturated (arg_log_format args) + 1,
                 vmaf := Context\<rparr>,
              [VmafInit (numThreads core) 1, CudaStateInit, CudaImportState])"
  using ok
  by (auto simp: vmafCreate_try_def Let_def new_VMAFData_def split: option.splits if_splits)

lemma vmafCreate_Created_iff:
  "snd (vmafCreate fails core args userData) = Created d \<longleftrightarrow>
     snd (vmafCreate_try fails core args userData) = None \<and>
     d = fst (fst (vmafCreate_try fails core args userData))"
  by (auto simp: vmafCreate_def split: prod.splits option.splits exn.splits)

lemma vmafCreate_Created_trace:
  "snd (vmafCreate fails core args userData) = Created d \<Longrightarrow>
   fst (vmafCreate fails core args userData) =
     snd (fst (vmafCreate_try fails core args userData)) @ [CreateVideoFilter (filterName d)]"
  by (auto simp: vmafCreate_def split: prod.splits option.splits exn.splits)

lemma count_le_1_distinct: "(\<forall>x \<in> set xs. count_list xs x \<le> 1) \<Longrightarrow> distinct xs"
proof (induction xs)
  case Nil
  then show ?case by simp
next
  case (Cons a xs)
  from Cons.prems have "count_list xs a = 0" by auto
  then have "a \<notin> set xs" by (simp add: count_list_0_iff)
  moreover have "\<forall>x \<in> set xs. count_list xs x \<le> 1"
  proof
    fix x assume "x \<in> set xs"
    with Cons.prems have "count_list (a # xs) x \<le> 1" by simp
    then show "count_list xs x \<le> 1" by (simp split: if_splits)
  qed
  ultimately show ?case using Cons.IH by simp
qed

section \<open>Order of the two load attempts\<close>

lemma load_order_append:
  assumes "load_order fails a" and "load_order fails b"
  shows "load_order fails (a @ b)"
  unfolding load_order_def
proof (intro allI impI)
  fix n v
  assume "ModelCollectionLoad n v \<in> set (a @ b)"
  then consider (a) "ModelCollectionLoad n v \<in> set a" | (b) "ModelCollectionLoad n v \<in> set b"
    by auto
  then show "fails (ModelLoad n v) \<and>
      (\<exists>pre post. a @ b = pre @ ModelLoad n v # ModelCollectionLoad n v # post)"
  proof cases
    case a
    with assms(1) obtain pre post where f: "fails (ModelLoad n v)"
      and "a = pre @ ModelLoad n v # ModelCollectionLoad n v # post"
      unfolding load_order_def by blast
    then have "a @ b = pre @ ModelLoad n v # ModelCollectionLoad n v # (post @ b)" by simp
    with f show ?thesis by blast
  next
    case b
    with assms(2) obtain pre post where f: "fails (ModelLoad n v)"
      and "b = pre @ ModelLoad n v # ModelCollectionLoad n v # post"
      unfolding load_order_def by blast
    then have "a @ b = (a @ pre) @ ModelLoad n v # ModelCollectionLoad n v # post" by simp
    with f show ?thesis by blast
  qed
qed

lemma load_order_none:
  "(\<And>n v. ModelCollectionLoad n v \<notin> set tr) \<Longrightarrow> load_order fails tr"
  by (simp add: load_order_def)

lemma load_order_model_calls: "load_order fails (model_calls fails m)"
proof -
  have "[ModelLoad n v, ModelCollectionLoad n v] = [] @ ModelLoad n v # ModelCollectionLoad n v # []"
    and "[ModelLoad n v, ModelCollectionLoad n v, e] = [] @ ModelLoad n v # ModelCollectionLoad n v # [e]"
    for n v e by simp_all
  then show ?thesis
    unfolding load_order_def model_calls_def by (auto simp del: append_Nil)
qed

text \<open>
  A property of traces that every batch of model calls and every feature call keeps
  is kept by both loops and by the whole of setup_models.
\<close>

lemma load_models_keeps:
  assumes "Q (snd st)" and "\<And>tr m. Q tr \<Longrightarrow> Q (tr @ model_calls fails m)"
  shows "Q (snd (fst (load_models fails ms N i st)))"
  using assms(1)
proof (induction "nat (N - i)" arbitrary: i st)
  case 0
  then have "\<not> i < N" by simp
  with 0 show ?case by (simp add: load_models_exit)
next
  case (Suc k)
  then have lt: "i < N" and k: "k = nat (N - (i + 1))" by simp_all
  have q: "Q (snd (fst (resolve_model fails (nat i) (ms ! nat i) st)))"
    using Suc.prems assms(2) by (simp add: resolve_model_trace)
  show ?case
    using Suc.hyps(1) [OF k q] q Suc.prems
    by (simp add: load_models_step [OF lt])
qed

lemma load_features_keeps:
  assumes "Q (snd st)" and "\<And>tr x. Q tr \<Longrightarrow> Q (tr @ [UseFeature x])"
  shows "Q (snd (fst (load_features fails fs N i st)))"
  using assms(1)
proof (induction "nat (N - i)" arbitrary: i st)
  case 0
  then have "\<not> i < N" by simp
  with 0 show ?case by (simp add: load_features_exit)
next
  case (Suc k)
  then have lt: "i < N" and k: "k = nat (N - (i + 1))" by simp_all
  have q: "Q (snd st @ [UseFeature (featureName ! nat (fs ! nat i))])"
    using Suc.prems assms(2) by simp
  show ?case
    using Suc.hyps(1) [OF k, of "((fst st)\<lparr>chroma := True\<rparr>, snd st @ [UseFeature (featureName ! nat (fs ! nat i))])"]
      Suc.hyps(1) [OF k, of "(fst st, snd st @ [UseFeature (featureName ! nat (fs ! nat i))])"]
      q Suc.prems
    by (simp add: load_features_step [OF lt])
qed

lemma setup_models_keeps:
  assumes "Q (snd st)" and "\<And>tr m. Q tr \<Longrightarrow> Q (tr @ model_calls fails m)"
    and "\<And>tr x. Q tr \<Longrightarrow> Q (tr @ [UseFeature x])"
  shows "Q (snd (fst (setup_models fails core args st)))"
proof -
  let ?ms = "mapGetIntArray (arg_model args)"
  let ?N = "mapNumElements (arg_model args)"
  let ?fs = "mapGetIntArray (arg_feature args)"
  let ?NF = "mapNumElements (arg_feature args)"
  let ?d1 = "if ?N > 0 then (fst st)\<lparr>model := replicate (nat ?N) NullModel\<rparr> else fst st"
  let ?L = "load_models fails ?ms ?N 0 (?d1, snd st)"
  let ?F = "load_features fails ?fs ?NF 0 (fst ?L)"
  have l: "Q (snd (fst ?L))"
    using load_models_keeps [of Q "(?d1, snd st)" fails ?ms ?N 0] assms(1,2) by simp
  have f: "Q (snd (fst ?F))"
    using load_features_keeps [of Q "fst ?L" fails ?fs ?NF 0] l assms(3) by simp
  show ?thesis
    using assms(1) l f
    by (auto simp: setup_models_def Let_def split: if_splits prod.splits option.splits)
qed

lemma vmafCreate_try_keeps:
  assumes "Q []" and "\<And>tr m. Q tr \<Longrightarrow> Q (tr @ model_calls fails m)"
    and "\<And>tr x. Q tr \<Longrightarrow> Q (tr @ [UseFeature x])"
    and "\<And>tr a b. Q tr \<Longrightarrow> Q (tr @ [VmafInit a b])"
    and "\<And>tr. Q tr \<Longrightarrow> Q (tr @ [CudaStateInit])"
    and "\<And>tr. Q tr \<Longrightarrow> Q (tr @ [CudaImportState])"
  shows "Q (snd (fst (vmafCreate_try fails core args userData)))"
proof -
  have 1: "Q [VmafInit (numThreads core) 1]"
    using assms(4) [OF assms(1)] by simp
  have 2: "Q [VmafInit (numThreads core) 1, CudaStateInit]"
    using assms(5) [OF 1] by simp
  have 3: "Q [VmafInit (numThreads core) 1, CudaStateInit, CudaImportState]"
    using assms(6) [OF 2] by simp
  have 4: "Q (snd (fst (setup_models fails core args
       (d, [VmafInit (numThreads core) 1, CudaStateInit, CudaImportState]))))" for d
    using setup_models_keeps [of Q "(d, [VmafInit (numThreads core) 1, CudaStateInit, CudaImportState])" fails]
      3 assms(2,3) by simp
  show ?thesis
    using assms(1) 1 2 3 4
    by (auto simp: vmafCreate_try_def Let_def split: option.splits if_splits)
qed

lemma vmafCreate_trace_cases:
  "fst (vmafCreate fails core args userData) =
     snd (fst (vmafCreate_try fails core args userData)) @
       (case snd (vmafCreate_try fails core args userData) of
          None \<Rightarrow> [CreateVideoFilter (filterName (fst (fst (vmafCreate_try fails core args userData))))]
        | Some (CharPtr msg) \<Rightarrow> []
        | Some (StdString error) \<Rightarrow>
            [MapSetError (filterName (fst (fst (vmafCreate_try fails core args userData)))
                            @ '': '' @ error),
             FreeNode (reference (fst (fst (vmafCreate_try fails core args userData)))),
             FreeNode (distorted (fst (fst (vmafCreate_try fails core args userData))))]
            @ map ModelDestroy (model (fst (fst (vmafCreate_try fails core args userData))))
            @ map ModelCollectionDestroy
                (modelCollection (fst (fst (vmafCreate_try fails core args userData))))
            @ [Close (vmaf (fst (fst (vmafCreate_try fails core args userData))))])"
  by (auto simp: vmafCreate_def split: prod.splits option.splits exn.splits)

lemma vmafCreate_load_order: "load_order fails (fst (vmafCreate fails core args userData))"
proof -
  have "load_order fails (snd (fst (vmafCreate_try fails core args userData)))"
  proof (rule vmafCreate_try_keeps)
    show "load_order fails []" by (simp add: load_order_def)
  qed (simp_all add: load_order_append load_order_model_calls load_order_none)
  moreover have "load_order fails
       (case snd (vmafCreate_try fails core args userData) of
          None \<Rightarrow> [CreateVideoFilter (filterName (fst (fst (vmafCreate_try fails core args userData))))]
        | Some (CharPtr msg) \<Rightarrow> []
        | Some (StdString error) \<Rightarrow>
            [MapSetError (filterName (fst (fst (vmafCreate_try fails core args userData)))
                            @ '': '' @ error),
             FreeNode (reference (fst (fst (vmafCreate_try fails core args userData)))),
             FreeNode (distorted (fst (fst (vmafCreate_try fails core args userData))))]
            @ map ModelDestroy (model (fst (fst (vmafCreate_try fails core args userData))))
            @ map ModelCollectionDestroy
                (modelCollection (fst (fst (vmafCreate_try fails core args userData))))
            @ [Close (vmaf (fst (fst (vmafCreate_try fails core args userData))))])"
    by (rule load_order_none) (auto split: option.splits exn.splits)
  ultimately show ?thesis
    by (simp only: vmafCreate_trace_cases load_order_append)
qed

section \<open>The exceptions of the try block\<close>

lemma starts_with_append: "starts_with p (p @ v)"
  by (induction p) simp_all

lemma loop_error_intros:
  "loop_error (StdString ''model must be 0, 1, 2, or 3'')"
  "loop_error (StdString ''duplicate model specified'')"
  "loop_error (StdString (''failed to load model: '' @ v))"
  "loop_error (StdString (''failed to load feature extractors from model collection: '' @ v))"
  "loop_error (StdString (''failed to load feature extractors from model: '' @ v))"
  "loop_error (StdString ''feature must be 0, 1, 2, 3, or 4'')"
  "loop_error (StdString ''duplicate feature specified'')"
  "loop_error (StdString (''failed to load feature extractor: '' @ v))"
  unfolding loop_error_def exn.case
  by (simp_all only: starts_with_append simp_thms)

lemma resolve_model_loop_error:
  "snd (resolve_model fails i m st) = Some e \<Longrightarrow> loop_error e"
  using resolve_model_error [of fails i m st e] loop_error_intros(3,4,5) by blast

lemma load_models_exn: "snd (load_models fails ms N i st) = Some e \<Longrightarrow> loop_error e"
proof (induction "nat (N - i)" arbitrary: i st)
  case 0
  then have "\<not> i < N" by simp
  with 0 show ?case by (simp add: load_models_exit)
next
  case (Suc k)
  then have lt: "i < N" and k: "k = nat (N - (i + 1))" by simp_all
  from Suc.prems show ?case
    by (auto simp add: load_models_step [OF lt] split: if_splits
        intro: loop_error_intros resolve_model_loop_error Suc.hyps(1) [OF k])
qed

lemma load_features_exn: "snd (load_features fails fs N i st) = Some e \<Longrightarrow> loop_error e"
proof (induction "nat (N - i)" arbitrary: i st)
  case 0
  then have "\<not> i < N" by simp
  with 0 show ?case by (simp add: load_features_exit)
next
  case (Suc k)
  then have lt: "i < N" and k: "k = nat (N - (i + 1))" by simp_all
  from Suc.prems show ?case
    by (auto simp add: load_features_step [OF lt] split: if_splits
        intro: loop_error_intros loop_error_intros [simplified] Suc.hyps(1) [OF k])
qed

lemma setup_models_exn:
  assumes "snd (setup_models fails core args st) = Some e"
  shows "(e = StdString ''both clips must have the same format and dimensions'' \<and>
          \<not> isSameVideoInfo (videoInfo core (distorted (fst st))) (vi (fst st))) \<or>
         (e = StdString ''both clips' number of frames do not match'' \<and>
          numFrames (videoInfo core (distorted (fst st))) \<noteq> numFrames (vi (fst st))) \<or>
         loop_error e"
proof -
  let ?ms = "mapGetIntArray (arg_model args)"
  let ?N = "mapNumElements (arg_model args)"
  let ?fs = "mapGetIntArray (arg_feature args)"
  let ?NF = "mapNumElements (arg_feature args)"
  let ?d1 = "if ?N > 0 then (fst st)\<lparr>model := replicate (nat ?N) NullModel\<rparr> else fst st"
  let ?L = "load_models fails ?ms ?N 0 (?d1, snd st)"
  let ?F = "load_features fails ?fs ?NF 0 (fst ?L)"
  have l: "snd ?L = Some e \<Longrightarrow> loop_error e" by (rule load_models_exn)
  have f: "snd ?F = Some e \<Longrightarrow> loop_error e" by (rule load_features_exn)
  have "setup_models fails core args st =
     (if \<not> isSameVideoInfo (videoInfo core (distorted (fst st))) (vi (fst st)) then
        (st, Some (StdString ''both clips must have the same format and dimensions''))
      else if numFrames (videoInfo core (distorted (fst st))) \<noteq> numFrames (vi (fst st)) then
        (st, Some (StdString ''both clips' number of frames do not match''))
      else if snd ?L \<noteq> None then ?L
      else if snd ?F \<noteq> None then ?F
      else (((fst (fst ?F))\<lparr>pixelFormat := select_pixel_format (format (vi (fst (fst ?F))))\<rparr>,
             snd (fst ?F)), None))"
    by (auto simp: setup_models_def Let_def split: prod.splits option.splits)
  with assms l f show ?thesis
    by (auto split: if_splits)
qed

lemma setup_models_filterName:
  "filterName (fst (fst (setup_models fails core args st))) = filterName (fst st)"
proof -
  let ?ms = "mapGetIntArray (arg_model args)"
  let ?N = "mapNumElements (arg_model args)"
  let ?fs = "mapGetIntArray (arg_feature args)"
  let ?NF = "mapNumElements (arg_feature args)"
  let ?d1 = "if ?N > 0 then (fst st)\<lparr>model := replicate (nat ?N) NullModel\<rparr> else fst st"
  let ?L = "load_models fails ?ms ?N 0 (?d1, snd st)"
  let ?F = "load_features fails ?fs ?NF 0 (fst ?L)"
  have l: "filterName (fst (fst ?L)) = filterName (fst st)"
    using load_models_static [of "(?d1, snd st)" fails ?ms ?N 0] by (simp add: same_static_def)
  have f: "filterName (fst (fst ?F)) = filterName (fst st)"
    using load_features_static [of "fst ?L" fails ?fs ?NF 0] l by (simp add: same_static_def)
  show ?thesis
    using l f
    by (auto simp: setup_models_def Let_def split: if_splits prod.splits option.splits)
qed

lemma vmafCreate_try_filterName:
  "filterName (fst (fst (vmafCreate_try fails core args userData))) = userData"
  by (auto simp: vmafCreate_try_def Let_def new_VMAFData_def setup_models_filterName
      split: option.splits)

lemma vmafCreate_Rejected_iff:
  "snd (vmafCreate fails core args userData) = Rejected msg \<longleftrightarrow>
     (\<exists>e. snd (vmafCreate_try fails core args userData) = Some (StdString e) \<and>
          msg = userData @ '': '' @ e)"
  using vmafCreate_try_filterName [of fails core args userData]
  by (auto simp: vmafCreate_def split: prod.splits option.splits exn.splits)

lemma not_loop_error:
  "\<not> loop_error (StdString ''both clips must have the same format and dimensions'')"
  "\<not> loop_error (StdString ''both clips' number of frames do not match'')"
  "\<not> loop_error (StdString ''log_format must be 0, 1, 2, or 3'')"
  by (simp_all add: loop_error_def)

lemma vmafCreate_try_unfold:
  "vmafCreate_try fails core args userData =
     (if check_format (videoInfo core (arg_reference args)) \<noteq> None then
        ((new_VMAFData userData (arg_reference args) (arg_distorted args)
            (videoInfo core (arg_reference args)), []),
         check_format (videoInfo core (arg_reference args)))
      else if mapGetIntSaturated (arg_log_format args) < 0 \<or>
              mapGetIntSaturated (arg_log_format args) > 3 then
        (((new_VMAFData userData (arg_reference args) (arg_distorted args)
            (videoInfo core (arg_reference args)))\<lparr>logPath := arg_log_path args\<rparr>, []),
         Some (StdString ''log_format must be 0, 1, 2, or 3''))
      else if fails (VmafInit (numThreads core) 1) then
        (((new_VMAFData userData (arg_reference args) (arg_distorted args)
            (videoInfo core (arg_reference args)))
              \<lparr>logPath := arg_log_path args,
               logFormat := mapGetIntSaturated (arg_log_format args) + 1\<rparr>,
          [VmafInit (numThreads core) 1]),
         Some (StdString ''failed to initialize VMAF context''))
      else if fails CudaStateInit then
        (((new_VMAFData userData (arg_reference args) (arg_distorted args)
            (videoInfo core (arg_reference args)))
              \<lparr>logPath := arg_log_path args,
               logFormat := mapGetIntSaturated (arg_log_format args) + 1,
               vmaf := Context\<rparr>,
          [VmafInit (numThreads core) 1, CudaStateInit]),
         Some (CharPtr ''problem during vmaf_cuda_state_init''))
      else if fails CudaImportState then
        (((new_VMAFData userData (arg_reference args) (arg_distorted args)
            (videoInfo core (arg_reference args)))
              \<lparr>logPath := arg_log_path args,
               logFormat := mapGetIntSaturated (arg_log_format args) + 1,
               vmaf := Context\<rparr>,
          [VmafInit (numThreads core) 1, CudaStateInit, CudaImportState]),
         Some (CharPtr ''problem during vmaf_cuda_import_state''))
      else
        setup_models fails core args
          ((new_VMAFData userData (arg_reference args) (arg_distorted args)
              (videoInfo core (arg_reference args)))
             \<lparr>logPath := arg_log_path args,
              logFormat := mapGetIntSaturated (arg_log_format args) + 1,
              vmaf := Context\<rparr>,
           [VmafInit (numThreads core) 1, CudaStateInit, CudaImportState]))"
  by (simp add: vmafCreate_try_def Let_def new_VMAFData_def split: option.splits)

lemma check_format_exn:
  "check_format v = Some e \<Longrightarrow>
     e = CharPtr ''only constant YUV format integer input supported'' \<or>
     e = CharPtr ''only 8, 10, 12 and 16 bit depth supported'' \<or>
     e = StdString ''only 420/422/444 chroma subsampling is supported''"
  unfolding check_format_def by (metis option.inject option.distinct(1))

lemma vmafCreate_try_clip_format:
  assumes "snd (vmafCreate_try fails core args userData) =
             Some (StdString ''both clips must have the same format and dimensions'')"
  shows "\<not> isSameVideoInfo (videoInfo core (arg_distorted args))
                             (videoInfo core (arg_reference args))"
proof -
  let ?e = "StdString ''both clips must have the same format and dimensions''"
  let ?st = "((new_VMAFData userData (arg_reference args) (arg_distorted args)
                 (videoInfo core (arg_reference args)))
                \<lparr>logPath := arg_log_path args,
                 logFormat := mapGetIntSaturated (arg_log_format args) + 1,
                 vmaf := Context\<rparr>,
              [VmafInit (numThreads core) 1, CudaStateInit, CudaImportState])"
  have c: "check_format (videoInfo core (arg_reference args)) \<noteq> Some ?e"
    using check_format_exn [of "videoInfo core (arg_reference args)" ?e] by auto
  from assms c have "snd (setup_models fails core args ?st) = Some ?e"
    by (simp add: vmafCreate_try_unfold split: if_splits)
  from setup_models_exn [OF this] show ?thesis
    by (simp add: not_loop_error new_VMAFData_def)
qed

lemma vmafCreate_try_clip_frames:
  assumes "snd (vmafCreate_try fails core args userData) =
             Some (StdString ''both clips' number of frames do not match'')"
  shows "numFrames (videoInfo core (arg_distorted args)) \<noteq>
         numFrames (videoInfo core (arg_reference args))"
proof -
  let ?e = "StdString ''both clips' number of frames do not match''"
  let ?st = "((new_VMAFData userData (arg_reference args) (arg_distorted args)
                 (videoInfo core (arg_reference args)))
                \<lparr>logPath := arg_log_path args,
                 logFormat := mapGetIntSaturated (arg_log_format args) + 1,
                 vmaf := Context\<rparr>,
              [VmafInit (numThreads core) 1, CudaStateInit, CudaImportState])"
  have c: "check_format (videoInfo core (arg_reference args)) \<noteq> Some ?e"
    using check_format_exn [of "videoInfo core (arg_reference args)" ?e] by auto
  from assms c have "snd (setup_models fails core args ?st) = Some ?e"
    by (simp add: vmafCreate_try_unfold split: if_splits)
  from setup_models_exn [OF this] show ?thesis
    by (simp add: not_loop_error new_VMAFData_def)
qed

lemma vmafCreate_try_log_format:
  assumes "snd (vmafCreate_try fails core args userData) =
             Some (StdString ''log_format must be 0, 1, 2, or 3'')"
  shows "mapGetIntSaturated (arg_log_format args) < 0 \<or>
         mapGetIntSaturated (arg_log_format args) > 3"
proof -
  let ?e = "StdString ''log_format must be 0, 1, 2, or 3''"
  let ?st = "((new_VMAFData userData (arg_reference args) (arg_distorted args)
                 (videoInfo core (arg_reference args)))
                \<lparr>logPath := arg_log_path args,
                 logFormat := mapGetIntSaturated (arg_log_format args) + 1,
                 vmaf := Context\<rparr>,
              [VmafInit (numThreads core) 1, CudaStateInit, CudaImportState])"
  have c: "check_format (videoInfo core (arg_reference args)) \<noteq> Some ?e"
    using check_format_exn [of "videoInfo core (arg_reference args)" ?e] by auto
  have s: "snd (setup_models fails core args ?st) \<noteq> Some ?e"
    using setup_models_exn [of fails core args ?st ?e] by (auto simp add: not_loop_error)
  from assms c s show ?thesis
    by (simp add: vmafCreate_try_unfold split: if_splits)
qed

section \<open>A failed collection load ends the setup\<close>

lemma model_calls_collection:
  "ModelCollectionLoad n v \<in> set (model_calls fails m) \<Longrightarrow>
   n = modelName ! nat m \<and> v = modelVersion ! nat m \<and>
   fails (ModelLoad (modelName ! nat m) (modelVersion ! nat m))"
  by (auto simp: model_calls_def split: if_splits)

lemma setup_models_unfold:
  "setup_models fails core args st =
     (let L = load_models fails (mapGetIntArray (arg_model args))
                (mapNumElements (arg_model args)) 0
                ((if mapNumElements (arg_model args) > 0
                  then (fst st)\<lparr>model :=
                         replicate (nat (mapNumElements (arg_model args))) NullModel\<rparr>
                  else fst st), snd st);
          F = load_features fails (mapGetIntArray (arg_feature args))
                (mapNumElements (arg_feature args)) 0 (fst L)
      in if \<not> isSameVideoInfo (videoInfo core (distorted (fst st))) (vi (fst st)) then
           (st, Some (StdString ''both clips must have the same format and dimensions''))
         else if numFrames (videoInfo core (distorted (fst st))) \<noteq> numFrames (vi (fst st)) then
           (st, Some (StdString ''both clips' number of frames do not match''))
         else if snd L \<noteq> None then L
         else if snd F \<noteq> None then F
         else (((fst (fst F))\<lparr>pixelFormat := select_pixel_format (format (vi (fst (fst F))))\<rparr>,
                snd (fst F)), None))"
  by (auto simp: setup_models_def Let_def split: prod.splits option.splits)

lemma load_models_failed_collection:
  assumes "no_failed_collection fails (snd st)"
    and "ModelCollectionLoad n v \<in> set (snd (fst (load_models fails ms N i st)))"
    and "fails (ModelCollectionLoad n v)"
  shows "snd (load_models fails ms N i st) = Some (StdString (''failed to load model: '' @ v))"
  using assms
proof (induction "nat (N - i)" arbitrary: i st)
  case 0
  then have "\<not> i < N" by simp
  with 0 show ?case by (simp add: load_models_exit no_failed_collection_def)
next
  case (Suc k)
  then have lt: "i < N" and k: "k = nat (N - (i + 1))" by simp_all
  let ?m = "ms ! nat i"
  let ?r = "resolve_model fails (nat i) ?m st"
  have tr: "snd (fst ?r) = snd st @ model_calls fails ?m" by (rule resolve_model_trace)
  consider (same) "fst (load_models fails ms N i st) = st"
    | (recurse) "snd ?r = None" "load_models fails ms N i st = load_models fails ms N (i + 1) (fst ?r)"
    | (thrown) "snd ?r \<noteq> None" "load_models fails ms N i st = ?r"
    using load_models_step [OF lt, of fails ms st]
    by (cases "ms ! nat i < 0 \<or> ms ! nat i > 3";
        cases "count_list (take (nat N) ms) (ms ! nat i) > 1";
        cases "snd ?r = None"; simp)
  then show ?case
  proof cases
    case same
    with Suc.prems show ?thesis by (simp add: no_failed_collection_def)
  next
    case recurse
    have "no_failed_collection fails (snd (fst ?r))"
      using Suc.prems(1) recurse(1)
      by (auto simp: tr no_failed_collection_def resolve_model_exn model_resolves_def
          dest!: model_calls_collection)
    from Suc.hyps(1) [OF k this] Suc.prems(2,3) recurse(2) show ?thesis by simp
  next
    case thrown
    from thrown(1) obtain e where e: "snd ?r = Some e" by blast
    from Suc.prems(2) thrown(2) Suc.prems(1,3)
    have "ModelCollectionLoad n v \<in> set (model_calls fails ?m)"
      by (auto simp: tr no_failed_collection_def)
    then have nv: "n = modelName ! nat ?m" "v = modelVersion ! nat ?m"
      and ml: "fails (ModelLoad (modelName ! nat ?m) (modelVersion ! nat ?m))"
      by (auto dest: model_calls_collection)
    from resolve_model_error [OF e] Suc.prems(3) nv ml
    have "e = StdString (''failed to load model: '' @ v)" by blast
    with e thrown(2) show ?thesis by simp
  qed
qed

lemma setup_models_failed_collection:
  assumes nf: "no_failed_collection fails (snd st)"
    and mem: "ModelCollectionLoad n v \<in> set (snd (fst (setup_models fails core args st)))"
    and f: "fails (ModelCollectionLoad n v)"
  shows "snd (setup_models fails core args st) =
           Some (StdString (''failed to load model: '' @ v))"
proof -
  let ?ms = "mapGetIntArray (arg_model args)"
  let ?N = "mapNumElements (arg_model args)"
  let ?fs = "mapGetIntArray (arg_feature args)"
  let ?NF = "mapNumElements (arg_feature args)"
  let ?d1 = "if ?N > 0 then (fst st)\<lparr>model := replicate (nat ?N) NullModel\<rparr> else fst st"
  let ?L = "load_models fails ?ms ?N 0 (?d1, snd st)"
  let ?F = "load_features fails ?fs ?NF 0 (fst ?L)"
  have st: "ModelCollectionLoad n v \<notin> set (snd st)"
    using nf f by (auto simp: no_failed_collection_def)
  have L: "ModelCollectionLoad n v \<in> set (snd (fst ?L)) \<Longrightarrow>
           snd ?L = Some (StdString (''failed to load model: '' @ v))"
    using load_models_failed_collection [of fails "(?d1, snd st)" n v ?ms ?N 0] nf f by simp
  have keep: "no_failed_collection fails (snd (fst ?L)) \<Longrightarrow>
              no_failed_collection fails (snd (fst ?F))"
    by (rule load_features_keeps) (auto simp: no_failed_collection_def)
  have F: "snd ?L = None \<Longrightarrow> ModelCollectionLoad n v \<notin> set (snd (fst ?F))"
  proof -
    assume ok: "snd ?L = None"
    have "no_failed_collection fails (snd (fst ?L))"
      unfolding no_failed_collection_def
    proof (intro allI impI notI)
      fix n' v' assume "ModelCollectionLoad n' v' \<in> set (snd (fst ?L))"
        and "fails (ModelCollectionLoad n' v')"
      then have "snd ?L = Some (StdString (''failed to load model: '' @ v'))"
        using load_models_failed_collection [of fails "(?d1, snd st)" n' v' ?ms ?N 0] nf by simp
      with ok show False by simp
    qed
    from keep [OF this] f show ?thesis by (auto simp: no_failed_collection_def)
  qed
  from mem st L F show ?thesis
    by (simp add: setup_models_unfold Let_def split: if_splits)
qed

lemma vmafCreate_failed_collection:
  assumes mem: "ModelCollectionLoad n v \<in> set (fst (vmafCreate fails core args userData))"
    and f: "fails (ModelCollectionLoad n v)"
  shows "snd (vmafCreate fails core args userData) =
           Rejected (userData @ '': failed to load model: '' @ v)"
proof -
  let ?st = "((new_VMAFData userData (arg_reference args) (arg_distorted args)
                 (videoInfo core (arg_reference args)))
                \<lparr>logPath := arg_log_path args,
                 logFormat := mapGetIntSaturated (arg_log_format args) + 1,
                 vmaf := Context\<rparr>,
              [VmafInit (numThreads core) 1, CudaStateInit, CudaImportState])"
  from mem have t: "ModelCollectionLoad n v \<in> set (snd (fst (vmafCreate_try fails core args userData)))"
    by (auto simp: vmafCreate_trace_cases split: option.splits exn.splits)
  then have eq: "vmafCreate_try fails core args userData = setup_models fails core args ?st"
    by (simp add: vmafCreate_try_unfold split: if_splits)
  have "no_failed_collection fails (snd ?st)" by (simp add: no_failed_collection_def)
  from setup_models_failed_collection [OF this t [unfolded eq] f]
  have "snd (vmafCreate_try fails core args userData) =
          Some (StdString (''failed to load model: '' @ v))"
    by (simp add: eq)
  then show ?thesis by (simp add: vmafCreate_Rejected_iff)
qed

section \<open>A created filter\<close>

text \<open>
  Everything a successful construction implies: the checks that passed, each field of
  the instance data, and the whole trace.
\<close>

lemma vmafCreate_Created:
  assumes "snd (vmafCreate fails core args userData) = Created d"
  shows "check_format (videoInfo core (arg_reference args)) = None"
    and "0 \<le> mapGetIntSaturated (arg_log_format args)"
    and "mapGetIntSaturated (arg_log_format args) \<le> 3"
    and "isSameVideoInfo (videoInfo core (arg_distorted args)) (videoInfo core (arg_reference args))"
    and "numFrames (videoInfo core (arg_distorted args)) =
         numFrames (videoInfo core (arg_reference args))"
    and "filterName d = userData"
    and "vi d = videoInfo core (arg_reference args)"
    and "logFormat d = mapGetIntSaturated (arg_log_format args) + 1"
    and "model d = map (model_slot fails) (mapGetIntArray (arg_model args))"
    and "modelCollection d =
           map (\<lambda>m. Collection (modelVersion ! nat m))
             (filter (\<lambda>m. fails (ModelLoad (modelName ! nat m) (modelVersion ! nat m)))
                (mapGetIntArray (arg_model args)))"
    and "chroma d \<longleftrightarrow> (\<exists>f \<in> set (mapGetIntArray (arg_feature args)). f = 0 \<or> f = 1 \<or> f = 4)"
    and "fst (vmafCreate fails core args userData) =
           [VmafInit (numThreads core) 1, CudaStateInit, CudaImportState]
           @ concat (map (model_calls fails) (mapGetIntArray (arg_model args)))
           @ map (\<lambda>f. UseFeature (featureName ! nat f)) (mapGetIntArray (arg_feature args))
           @ [CreateVideoFilter userData]"
    and "\<forall>m \<in> set (mapGetIntArray (arg_model args)).
           0 \<le> m \<and> m \<le> 3 \<and> count_list (mapGetIntArray (arg_model args)) m \<le> 1 \<and>
           model_resolves fails m"
    and "\<forall>f \<in> set (mapGetIntArray (arg_feature args)).
           0 \<le> f \<and> f \<le> 4 \<and> count_list (mapGetIntArray (arg_feature args)) f \<le> 1 \<and>
           \<not> fails (UseFeature (featureName ! nat f))"
    and "pixelFormat d = select_pixel_format (format (videoInfo core (arg_reference args)))"
    and "reference d = arg_reference args" and "distorted d = arg_distorted args"
    and "logPath d = arg_log_path args" and "vmaf d = Context"
proof -
  let ?st = "((new_VMAFData userData (arg_reference args) (arg_distorted args)
                 (videoInfo core (arg_reference args)))
                \<lparr>logPath := arg_log_path args,
                 logFormat := mapGetIntSaturated (arg_log_format args) + 1,
                 vmaf := Context\<rparr>,
              [VmafInit (numThreads core) 1, CudaStateInit, CudaImportState])"
  from assms have ok: "snd (vmafCreate_try fails core args userData) = None"
    and d: "d = fst (fst (vmafCreate_try fails core args userData))"
    by (simp_all add: vmafCreate_Created_iff)
  note T = vmafCreate_try_success [OF ok]
  have eq: "vmafCreate_try fails core args userData = setup_models fails core args ?st"
    by (rule T(7))
  have ok': "snd (setup_models fails core args ?st) = None" using ok eq by simp
  have e1: "model (fst ?st) = []" and e2: "modelCollection (fst ?st) = []"
    by (simp_all add: new_VMAFData_def)
  note S = setup_models_success [OF ok' e1 e2]
  show "check_format (videoInfo core (arg_reference args)) = None"
    and "0 \<le> mapGetIntSaturated (arg_log_format args)"
    and "mapGetIntSaturated (arg_log_format args) \<le> 3"
    by (rule T)+
  show "isSameVideoInfo (videoInfo core (arg_distorted args)) (videoInfo core (arg_reference args))"
    using S(1) by (simp add: new_VMAFData_def)
  show "numFrames (videoInfo core (arg_distorted args)) =
         numFrames (videoInfo core (arg_reference args))"
    using S(2) by (simp add: new_VMAFData_def)
  show fn: "filterName d = userData" using S(8) by (simp add: d eq new_VMAFData_def)
  show "vi d = videoInfo core (arg_reference args)"
    using S(11) by (simp add: d eq new_VMAFData_def)
  show "logFormat d = mapGetIntSaturated (arg_log_format args) + 1"
    using S(13) by (simp add: d eq new_VMAFData_def)
  show "model d = map (model_slot fails) (mapGetIntArray (arg_model args))"
    using S(4) by (simp add: d eq)
  show "modelCollection d =
           map (\<lambda>m. Collection (modelVersion ! nat m))
             (filter (\<lambda>m. fails (ModelLoad (modelName ! nat m) (modelVersion ! nat m)))
                (mapGetIntArray (arg_model args)))"
    using S(5) by (simp add: d eq)
  show "chroma d \<longleftrightarrow> (\<exists>f \<in> set (mapGetIntArray (arg_feature args)). f = 0 \<or> f = 1 \<or> f = 4)"
    using S(6) by (simp add: d eq new_VMAFData_def)
  show "fst (vmafCreate fails core args userData) =
           [VmafInit (numThreads core) 1, CudaStateInit, CudaImportState]
           @ concat (map (model_calls fails) (mapGetIntArray (arg_model args)))
           @ map (\<lambda>f. UseFeature (featureName ! nat f)) (mapGetIntArray (arg_feature args))
           @ [CreateVideoFilter userData]"
    using vmafCreate_Created_trace [OF assms] S(3) fn by (simp add: eq)
  show "\<forall>m \<in> set (mapGetIntArray (arg_model args)).
           0 \<le> m \<and> m \<le> 3 \<and> count_list (mapGetIntArray (arg_model args)) m \<le> 1 \<and>
           model_resolves fails m"
    by (rule S(15))
  show "\<forall>f \<in> set (mapGetIntArray (arg_feature args)).
           0 \<le> f \<and> f \<le> 4 \<and> count_list (mapGetIntArray (arg_feature args)) f \<le> 1 \<and>
           \<not> fails (UseFeature (featureName ! nat f))"
    by (rule S(16))
  show "pixelFormat d = select_pixel_format (format (videoInfo core (arg_reference args)))"
    using S(7) by (simp add: d eq new_VMAFData_def)
  show "reference d = arg_reference args" using S(9) by (simp add: d eq new_VMAFData_def)
  show "distorted d = arg_distorted args" using S(10) by (simp add: d eq new_VMAFData_def)
  show "logPath d = arg_log_path args" using S(12) by (simp add: d eq new_VMAFData_def)
  show "vmaf d = Context" using S(14) by (simp add: d eq new_VMAFData_def)
qed

text \<open>Running the example.\<close>

lemma ex_run:
  "vmafCreate ex_engine ex_core ex_args ''VMAF'' =
     ([VmafInit 4 1, CudaStateInit, CudaImportState,
       ModelLoad ''vmaf'' ''vmaf_v0.6.1'', UseFeaturesFromModel (Model ''vmaf_v0.6.1''),
       ModelLoad ''vmaf_b'' ''vmaf_b_v0.6.3'', ModelCollectionLoad ''vmaf_b'' ''vmaf_b_v0.6.3'',
       UseFeaturesFromModelCollection (Collection ''vmaf_b_v0.6.3''),
       UseFeature ''float_ssim'', UseFeature ''ciede'', CreateVideoFilter ''VMAF''],
      Created ex_data)"
  by (simp add: vmafCreate_def vmafCreate_try_def setup_models_def check_format_def
      isConstantVideoFormat_def isSameVideoInfo_def isSameVideoFormat_def
      mapGetIntSaturated_def mapGetIntArray_def mapNumElements_def new_VMAFData_def
      load_models.simps load_features.simps resolve_model_def select_pixel_format_def
      modelName_def modelVersion_def featureName_def Let_def
      ex_engine_def ex_core_def ex_args_def ex_data_def ex_vi_def ex_format_def eval_nat_numeral)

lemmas ex_eval =
  vmafCreate_def vmafCreate_try_def setup_models_def check_format_def
  isConstantVideoFormat_def isSameVideoInfo_def isSameVideoFormat_def
  mapGetIntSaturated_def mapGetIntArray_def mapNumElements_def int64ToIntS_def new_VMAFData_def
  load_models.simps load_features.simps resolve_model_def select_pixel_format_def
  modelName_def modelVersion_def featureName_def Let_def
  ex_core_def ex_args_def ex_vi_def ex_format_def eval_nat_numeral

lemma ex_run_both:
  "vmafCreate ex_engine_both ex_core ex_args ''VMAF'' =
     ([VmafInit 4 1, CudaStateInit, CudaImportState,
       ModelLoad ''vmaf'' ''vmaf_v0.6.1'', UseFeaturesFromModel (Model ''vmaf_v0.6.1''),
       ModelLoad ''vmaf_b'' ''vmaf_b_v0.6.3'', ModelCollectionLoad ''vmaf_b'' ''vmaf_b_v0.6.3'',
       MapSetError ''VMAF: failed to load model: vmaf_b_v0.6.3'', FreeNode 1, FreeNode 2,
       ModelDestroy (Model ''vmaf_v0.6.1''), ModelDestroy NullModel,
       ModelCollectionDestroy NullCollection, Close Context],
      Rejected ''VMAF: failed to load model: vmaf_b_v0.6.3'')"
  by (simp add: ex_eval ex_engine_both_def)

section \<open>Model resolution\<close>

text \<open>
  C4. In every run of vmafCreate, whatever its outcome: a collection load is the call
  right after the singleton load of the same model name and version, and that singleton
  load failed; if the collection load fails as well, construction is rejected with the
  message \<open>failed to load model: \<close> followed by that version, under the filter's
  name. When the filter is created, each requested model was loaded by exactly the calls
  of one variant and the feature extractors of that variant were registered with
  success; all of this precedes \<open>createVideoFilter\<close>, the last call, before which no
  frame can be requested.
\<close>

theorem model_resolution:
  "(\<forall>n v. ModelCollectionLoad n v \<in> set (fst (vmafCreate fails core args userData)) \<longrightarrow>
      fails (ModelLoad n v) \<and>
      (\<exists>pre post. fst (vmafCreate fails core args userData) =
                     pre @ ModelLoad n v # ModelCollectionLoad n v # post)) \<and>
   (\<forall>n v. ModelCollectionLoad n v \<in> set (fst (vmafCreate fails core args userData)) \<and>
          fails (ModelCollectionLoad n v) \<longrightarrow>
      snd (vmafCreate fails core args userData) =
        Rejected (userData @ '': failed to load model: '' @ v)) \<and>
   (\<forall>d. snd (vmafCreate fails core args userData) = Created d \<longrightarrow>
      (\<exists>pre. fst (vmafCreate fails core args userData) = pre @ [CreateVideoFilter userData] \<and>
         (\<forall>m \<in> set (mapGetIntArray (arg_model args)).
            ModelLoad (modelName ! nat m) (modelVersion ! nat m) \<in> set pre \<and>
            (if fails (ModelLoad (modelName ! nat m) (modelVersion ! nat m))
             then ModelCollectionLoad (modelName ! nat m) (modelVersion ! nat m) \<in> set pre \<and>
                  \<not> fails (ModelCollectionLoad (modelName ! nat m) (modelVersion ! nat m)) \<and>
                  UseFeaturesFromModelCollection (Collection (modelVersion ! nat m)) \<in> set pre \<and>
                  \<not> fails (UseFeaturesFromModelCollection (Collection (modelVersion ! nat m)))
             else UseFeaturesFromModel (Model (modelVersion ! nat m)) \<in> set pre \<and>
                  \<not> fails (UseFeaturesFromModel (Model (modelVersion ! nat m)))))))"
proof (intro conjI allI impI)
  fix n v
  assume "ModelCollectionLoad n v \<in> set (fst (vmafCreate fails core args userData))"
  then show "fails (ModelLoad n v)"
    and "\<exists>pre post. fst (vmafCreate fails core args userData) =
                     pre @ ModelLoad n v # ModelCollectionLoad n v # post"
    using vmafCreate_load_order [of fails core args userData]
    unfolding load_order_def by blast+
next
  fix n v
  assume "ModelCollectionLoad n v \<in> set (fst (vmafCreate fails core args userData)) \<and>
          fails (ModelCollectionLoad n v)"
  then show "snd (vmafCreate fails core args userData) =
        Rejected (userData @ '': failed to load model: '' @ v)"
    using vmafCreate_failed_collection by blast
next
  fix d
  assume c: "snd (vmafCreate fails core args userData) = Created d"
  let ?pre = "[VmafInit (numThreads core) 1, CudaStateInit, CudaImportState]
           @ concat (map (model_calls fails) (mapGetIntArray (arg_model args)))
           @ map (\<lambda>f. UseFeature (featureName ! nat f)) (mapGetIntArray (arg_feature args))"
  have tr: "fst (vmafCreate fails core args userData) = ?pre @ [CreateVideoFilter userData]"
    using vmafCreate_Created(12) [OF c] by simp
  have "\<forall>m \<in> set (mapGetIntArray (arg_model args)).
            ModelLoad (modelName ! nat m) (modelVersion ! nat m) \<in> set ?pre \<and>
            (if fails (ModelLoad (modelName ! nat m) (modelVersion ! nat m))
             then ModelCollectionLoad (modelName ! nat m) (modelVersion ! nat m) \<in> set ?pre \<and>
                  \<not> fails (ModelCollectionLoad (modelName ! nat m) (modelVersion ! nat m)) \<and>
                  UseFeaturesFromModelCollection (Collection (modelVersion ! nat m)) \<in> set ?pre \<and>
                  \<not> fails (UseFeaturesFromModelCollection (Collection (modelVersion ! nat m)))
             else UseFeaturesFromModel (Model (modelVersion ! nat m)) \<in> set ?pre \<and>
                  \<not> fails (UseFeaturesFromModel (Model (modelVersion ! nat m))))"
  proof
    fix m assume m: "m \<in> set (mapGetIntArray (arg_model args))"
    with vmafCreate_Created(13) [OF c] have r: "model_resolves fails m" by blast
    have sub: "set (model_calls fails m) \<subseteq> set ?pre" using m by auto
    show "ModelLoad (modelName ! nat m) (modelVersion ! nat m) \<in> set ?pre \<and>
            (if fails (ModelLoad (modelName ! nat m) (modelVersion ! nat m))
             then ModelCollectionLoad (modelName ! nat m) (modelVersion ! nat m) \<in> set ?pre \<and>
                  \<not> fails (ModelCollectionLoad (modelName ! nat m) (modelVersion ! nat m)) \<and>
                  UseFeaturesFromModelCollection (Collection (modelVersion ! nat m)) \<in> set ?pre \<and>
                  \<not> fails (UseFeaturesFromModelCollection (Collection (modelVersion ! nat m)))
             else UseFeaturesFromModel (Model (modelVersion ! nat m)) \<in> set ?pre \<and>
                  \<not> fails (UseFeaturesFromModel (Model (modelVersion ! nat m))))"
    proof (cases "fails (ModelLoad (modelName ! nat m) (modelVersion ! nat m))")
      case True
      with r have "model_calls fails m =
          [ModelLoad (modelName ! nat m) (modelVersion ! nat m),
           ModelCollectionLoad (modelName ! nat m) (modelVersion ! nat m),
           UseFeaturesFromModelCollection (Collection (modelVersion ! nat m))]"
        by (simp add: model_calls_def model_resolves_def)
      with sub True r show ?thesis
        by (simp add: model_resolves_def del: set_append set_concat)
    next
      case False
      then have "model_calls fails m =
          [ModelLoad (modelName ! nat m) (modelVersion ! nat m),
           UseFeaturesFromModel (Model (modelVersion ! nat m))]"
        by (simp add: model_calls_def)
      with sub False r show ?thesis
        by (simp add: model_resolves_def del: set_append set_concat)
    qed
  qed
  with tr show "\<exists>pre. fst (vmafCreate fails core args userData) = pre @ [CreateVideoFilter userData] \<and>
         (\<forall>m \<in> set (mapGetIntArray (arg_model args)).
            ModelLoad (modelName ! nat m) (modelVersion ! nat m) \<in> set pre \<and>
            (if fails (ModelLoad (modelName ! nat m) (modelVersion ! nat m))
             then ModelCollectionLoad (modelName ! nat m) (modelVersion ! nat m) \<in> set pre \<and>
                  \<not> fails (ModelCollectionLoad (modelName ! nat m) (modelVersion ! nat m)) \<and>
                  UseFeaturesFromModelCollection (Collection (modelVersion ! nat m)) \<in> set pre \<and>
                  \<not> fails (UseFeaturesFromModelCollection (Collection (modelVersion ! nat m)))
             else UseFeaturesFromModel (Model (modelVersion ! nat m)) \<in> set pre \<and>
                  \<not> fails (UseFeaturesFromModel (Model (modelVersion ! nat m)))))"
    by blast
qed

theorem model_resolution_witness:
  "ModelCollectionLoad ''vmaf_b'' ''vmaf_b_v0.6.3''
     \<in> set (fst (vmafCreate ex_engine ex_core ex_args ''VMAF'')) \<and>
   ex_engine (ModelLoad ''vmaf_b'' ''vmaf_b_v0.6.3'') \<and>
   snd (vmafCreate ex_engine ex_core ex_args ''VMAF'') = Created ex_data \<and>
   ModelCollectionLoad ''vmaf_b'' ''vmaf_b_v0.6.3''
     \<in> set (fst (vmafCreate ex_engine_both ex_core ex_args ''VMAF'')) \<and>
   ex_engine_both (ModelCollectionLoad ''vmaf_b'' ''vmaf_b_v0.6.3'') \<and>
   snd (vmafCreate ex_engine_both ex_core ex_args ''VMAF'') =
     Rejected ''VMAF: failed to load model: vmaf_b_v0.6.3''"
  using model_resolution [of ex_engine ex_core ex_args "''VMAF''"]
    model_resolution [of ex_engine_both ex_core ex_args "''VMAF''"]
  by (simp add: ex_run ex_run_both ex_engine_def ex_engine_both_def)

section \<open>Pooled scores at teardown\<close>

lemma filter_pooled_concat:
  "filter is_ScorePooled (concat (map (logged fails name) cs)) =
     filter is_ScorePooled (map fst cs)"
  "filter is_ScorePooledModelCollection (concat (map (logged fails name) cs)) =
     filter is_ScorePooledModelCollection (map fst cs)"
  by (induction cs) (simp_all add: logged_def)

lemma filter_pooled_maps:
  "filter is_ScorePooled (map (\<lambda>m. ScorePooled m p lo hi) xs) = map (\<lambda>m. ScorePooled m p lo hi) xs"
  "filter is_ScorePooledModelCollection (map (\<lambda>m. ScorePooled m p lo hi) xs) = []"
  "filter is_ScorePooled (map (\<lambda>m. ScorePooledModelCollection m p lo hi) ys) = []"
  "filter is_ScorePooledModelCollection (map (\<lambda>m. ScorePooledModelCollection m p lo hi) ys) =
     map (\<lambda>m. ScorePooledModelCollection m p lo hi) ys"
  "filter is_ScorePooled (map ModelDestroy xs') = []"
  "filter is_ScorePooledModelCollection (map ModelDestroy xs') = []"
  "filter is_ScorePooled (map ModelCollectionDestroy ys') = []"
  "filter is_ScorePooledModelCollection (map ModelCollectionDestroy ys') = []"
  by (simp_all add: filter_map o_def)

lemma vmafFree_extractions:
  assumes "\<not> bound \<or> (\<forall>c \<in> set (checked_calls d). \<not> fails (fst c))"
  shows "filter is_ScorePooled (fst (vmafFree fails bound d)) =
           map (\<lambda>m. ScorePooled m VMAF_POOL_METHOD_MEAN 0 (numFrames (vi d) - 1)) (model d)"
    and "filter is_ScorePooledModelCollection (fst (vmafFree fails bound d)) =
           map (\<lambda>m. ScorePooledModelCollection m VMAF_POOL_METHOD_MEAN 0 (numFrames (vi d) - 1))
             (modelCollection d)"
  by (simp_all add: vmafFree_completes [OF assms] filter_pooled_concat calls_of_checked_calls
      filter_pooled_maps)

text \<open>
  C5, as the code has it, for a teardown that is the first of its process or in which
  the flush, the extractions and the write all succeed. After a successful construction
  the singleton extraction \<open>vmaf_score_pooled\<close> is called once for every requested
  model, on the handle in that model's slot, whether the model was loaded as a
  singleton or as a collection; the collection extraction is called, in addition, once
  for every model whose singleton load failed, on its collection handle. Both pool by
  the mean over \<open>[0, numFrames - 1]\<close>.
\<close>

theorem teardown_extraction_calls:
  assumes "snd (vmafCreate fails core args userData) = Created d"
    and "\<not> bound \<or> (\<forall>c \<in> set (checked_calls d). \<not> fails' (fst c))"
  shows "filter is_ScorePooled (fst (vmafFree fails' bound d)) =
           map (\<lambda>m. ScorePooled
                       (if fails (ModelLoad (modelName ! nat m) (modelVersion ! nat m))
                        then CollectionModel (modelVersion ! nat m)
                        else Model (modelVersion ! nat m))
                       VMAF_POOL_METHOD_MEAN
                       0 (numFrames (videoInfo core (arg_reference args)) - 1))
             (mapGetIntArray (arg_model args)) \<and>
         filter is_ScorePooledModelCollection (fst (vmafFree fails' bound d)) =
           map (\<lambda>m. ScorePooledModelCollection (Collection (modelVersion ! nat m))
                       VMAF_POOL_METHOD_MEAN
                       0 (numFrames (videoInfo core (arg_reference args)) - 1))
             (filter (\<lambda>m. fails (ModelLoad (modelName ! nat m) (modelVersion ! nat m)))
                (mapGetIntArray (arg_model args)))"
  using vmafCreate_Created(7,9,10) [OF assms(1)]
  by (simp add: vmafFree_extractions [OF assms(2)] model_slot_def o_def)

theorem teardown_extraction_calls_witness:
  "snd (vmafCreate ex_engine ex_core ex_args ''VMAF'') = Created ex_data \<and>
   \<not> False \<and>
   filter is_ScorePooled (fst (vmafFree (\<lambda>e. True) False ex_data)) =
     [ScorePooled (Model ''vmaf_v0.6.1'') VMAF_POOL_METHOD_MEAN 0 9,
      ScorePooled (CollectionModel ''vmaf_b_v0.6.3'') VMAF_POOL_METHOD_MEAN 0 9] \<and>
   filter is_ScorePooledModelCollection (fst (vmafFree (\<lambda>e. True) False ex_data)) =
     [ScorePooledModelCollection (Collection ''vmaf_b_v0.6.3'') VMAF_POOL_METHOD_MEAN 0 9]"
proof -
  have c: "snd (vmafCreate ex_engine ex_core ex_args ''VMAF'') = Created ex_data"
    by (simp add: ex_run)
  have "filter is_ScorePooled (fst (vmafFree (\<lambda>e. True) False ex_data)) =
     [ScorePooled (Model ''vmaf_v0.6.1'') VMAF_POOL_METHOD_MEAN 0 9,
      ScorePooled (CollectionModel ''vmaf_b_v0.6.3'') VMAF_POOL_METHOD_MEAN 0 9] \<and>
   filter is_ScorePooledModelCollection (fst (vmafFree (\<lambda>e. True) False ex_data)) =
     [ScorePooledModelCollection (Collection ''vmaf_b_v0.6.3'') VMAF_POOL_METHOD_MEAN 0 9]"
    using teardown_extraction_calls [OF c, of False "\<lambda>e. True"]
    by (simp add: ex_engine_def ex_core_def ex_args_def ex_vi_def mapGetIntArray_def
        modelName_def modelVersion_def)
  with c show ?thesis by simp
qed

text \<open>
  C5 as stated has one extraction per loaded model, by the call of its variant only. In
  the example the second requested model loads as a collection: at the first teardown,
  with no call failing, its slot of \<open>d->model\<close> is scored by the singleton call and its
  collection by the collection call, three extraction calls for two requested models.
\<close>

theorem collection_model_scored_twice_counterexample:
  "snd (vmafCreate ex_engine ex_core ex_args ''VMAF'') = Created ex_data \<and>
   arg_model ex_args = Some [0, 2] \<and>
   ex_engine (ModelLoad (modelName ! 2) (modelVersion ! 2)) \<and>
   \<not> ex_engine (ModelCollectionLoad (modelName ! 2) (modelVersion ! 2)) \<and>
   model ex_data ! 1 = CollectionModel (modelVersion ! 2) \<and>
   ScorePooled (model ex_data ! 1) VMAF_POOL_METHOD_MEAN 0 9
     \<in> set (fst (vmafFree (\<lambda>e. False) False ex_data)) \<and>
   ScorePooledModelCollection (Collection (modelVersion ! 2)) VMAF_POOL_METHOD_MEAN 0 9
     \<in> set (fst (vmafFree (\<lambda>e. False) False ex_data)) \<and>
   length (filter is_ScorePooled (fst (vmafFree (\<lambda>e. False) False ex_data))) +
   length (filter is_ScorePooledModelCollection (fst (vmafFree (\<lambda>e. False) False ex_data))) = 3"
proof -
  have c: "snd (vmafCreate ex_engine ex_core ex_args ''VMAF'') = Created ex_data"
    by (simp add: ex_run)
  have "arg_model ex_args = Some [0, 2] \<and>
   ex_engine (ModelLoad (modelName ! 2) (modelVersion ! 2)) \<and>
   \<not> ex_engine (ModelCollectionLoad (modelName ! 2) (modelVersion ! 2)) \<and>
   model ex_data ! 1 = CollectionModel (modelVersion ! 2) \<and>
   ScorePooled (model ex_data ! 1) VMAF_POOL_METHOD_MEAN 0 9
     \<in> set (fst (vmafFree (\<lambda>e. False) False ex_data)) \<and>
   ScorePooledModelCollection (Collection (modelVersion ! 2)) VMAF_POOL_METHOD_MEAN 0 9
     \<in> set (fst (vmafFree (\<lambda>e. False) False ex_data)) \<and>
   length (filter is_ScorePooled (fst (vmafFree (\<lambda>e. False) False ex_data))) +
   length (filter is_ScorePooledModelCollection (fst (vmafFree (\<lambda>e. False) False ex_data))) = 3"
    by (simp add: ex_engine_def ex_args_def ex_data_def ex_vi_def vmafFree_def checked_calls_def
        modelName_def modelVersion_def)
  with c show ?thesis by (rule conjI)
qed

section \<open>Planes copied\<close>

lemma vmafGetFrame_bitblt:
  assumes "\<not> fails (alloc_call d RefPic)" and "\<not> fails (alloc_call d DistPic)"
  shows "Bitblt p q f \<in> set (fst (vmafGetFrame fails d n arAllFramesReady c)) \<longleftrightarrow>
           0 \<le> q \<and> q < numPlanes (format (vi d)) \<and> (q = 0 \<or> chroma d) \<and>
           (p = RefPic \<and> f = Frame (reference d) n \<or> p = DistPic \<and> f = Frame (distorted d) n)"
proof -
  have "set (fst (vmafGetFrame fails d n arAllFramesReady c)) \<inter> {e. is_Bitblt e} =
        set (copy_planes d (Frame (reference d) n) (Frame (distorted d) n) 0
               [alloc_call d RefPic, alloc_call d DistPic]) \<inter> {e. is_Bitblt e}"
    using assms
    by (auto simp add: vmafGetFrame_def process_pictures_def Let_def)
  moreover have "Bitblt p q f \<in> {e. is_Bitblt e}" by simp
  ultimately have "Bitblt p q f \<in> set (fst (vmafGetFrame fails d n arAllFramesReady c)) \<longleftrightarrow>
      Bitblt p q f \<in> set (copy_planes d (Frame (reference d) n) (Frame (distorted d) n) 0
               [alloc_call d RefPic, alloc_call d DistPic])"
    by blast
  also have "\<dots> \<longleftrightarrow> 0 \<le> q \<and> q < numPlanes (format (vi d)) \<and> (q = 0 \<or> chroma d) \<and>
           (p = RefPic \<and> f = Frame (reference d) n \<or> p = DistPic \<and> f = Frame (distorted d) n)"
    by (auto simp add: set_copy_planes alloc_call_def)
  finally show ?thesis .
qed

text \<open>
  C6, for the frames whose two pictures are allocated. On a three-plane clip of a
  constructed filter, plane 0 is copied into both pictures, and planes 1 and 2 are
  copied into both exactly when the chroma flag is set; the flag is set exactly when
  the feature list holds 0 (psnr), 1 (psnr_hvs) or 4 (ciede).
\<close>

theorem plane_copies:
  assumes "snd (vmafCreate fails0 core args userData) = Created d"
    and "numPlanes (format (videoInfo core (arg_reference args))) = 3"
    and "\<not> fails (alloc_call d RefPic)" and "\<not> fails (alloc_call d DistPic)"
  shows "Bitblt RefPic 0 (Frame (reference d) n)
           \<in> set (fst (vmafGetFrame fails d n arAllFramesReady c)) \<and>
         Bitblt DistPic 0 (Frame (distorted d) n)
           \<in> set (fst (vmafGetFrame fails d n arAllFramesReady c)) \<and>
         (\<forall>q \<in> {1, 2}.
            (Bitblt RefPic q (Frame (reference d) n)
               \<in> set (fst (vmafGetFrame fails d n arAllFramesReady c)) \<longleftrightarrow> chroma d) \<and>
            (Bitblt DistPic q (Frame (distorted d) n)
               \<in> set (fst (vmafGetFrame fails d n arAllFramesReady c)) \<longleftrightarrow> chroma d)) \<and>
         (chroma d \<longleftrightarrow>
            (\<exists>f \<in> set (mapGetIntArray (arg_feature args)). f = 0 \<or> f = 1 \<or> f = 4))"
  using vmafCreate_Created(7,11) [OF assms(1)] assms(2)
  by (simp add: vmafGetFrame_bitblt [OF assms(3,4)])

theorem plane_copies_witness:
  "snd (vmafCreate ex_engine ex_core ex_args ''VMAF'') = Created ex_data \<and>
   numPlanes (format (videoInfo ex_core (arg_reference ex_args))) = 3 \<and>
   \<not> ex_engine (alloc_call ex_data RefPic) \<and> \<not> ex_engine (alloc_call ex_data DistPic) \<and>
   Bitblt RefPic 0 (Frame 1 5) \<in> set (fst (vmafGetFrame ex_engine ex_data 5 arAllFramesReady 7)) \<and>
   Bitblt DistPic 2 (Frame 2 5) \<in> set (fst (vmafGetFrame ex_engine ex_data 5 arAllFramesReady 7)) \<and>
   chroma ex_data \<and> 4 \<in> set (mapGetIntArray (arg_feature ex_args))"
proof -
  have c: "snd (vmafCreate ex_engine ex_core ex_args ''VMAF'') = Created ex_data"
    by (simp add: ex_run)
  have p: "numPlanes (format (videoInfo ex_core (arg_reference ex_args))) = 3"
    by (simp add: ex_core_def ex_vi_def ex_format_def)
  have a: "\<not> ex_engine (alloc_call ex_data RefPic)" "\<not> ex_engine (alloc_call ex_data DistPic)"
    by (simp_all add: ex_engine_def alloc_call_def)
  have "Bitblt RefPic 0 (Frame 1 5) \<in> set (fst (vmafGetFrame ex_engine ex_data 5 arAllFramesReady 7)) \<and>
   Bitblt DistPic 2 (Frame 2 5) \<in> set (fst (vmafGetFrame ex_engine ex_data 5 arAllFramesReady 7)) \<and>
   chroma ex_data \<and> 4 \<in> set (mapGetIntArray (arg_feature ex_args))"
    using plane_copies [OF c p a, of 5 7]
    by (simp add: ex_data_def ex_args_def mapGetIntArray_def)
  with c p a show ?thesis by simp
qed

text \<open>
  C6 as stated has the luma plane copied for every frame. When the allocation of the
  reference picture fails, no plane is copied at all.
\<close>

theorem no_copy_on_failed_allocation_counterexample:
  "(\<lambda>e. e = alloc_call ex_data RefPic) (alloc_call ex_data RefPic) \<and>
   Bitblt RefPic 0 (Frame (reference ex_data) 3)
     \<notin> set (fst (vmafGetFrame (\<lambda>e. e = alloc_call ex_data RefPic) ex_data 3 arAllFramesReady 7)) \<and>
   Bitblt DistPic 0 (Frame (distorted ex_data) 3)
     \<notin> set (fst (vmafGetFrame (\<lambda>e. e = alloc_call ex_data RefPic) ex_data 3 arAllFramesReady 7)) \<and>
   filter is_Bitblt
     (fst (vmafGetFrame (\<lambda>e. e = alloc_call ex_data RefPic) ex_data 3 arAllFramesReady 7)) = []"
  by (simp add: vmafGetFrame_def process_pictures_def alloc_call_def)

section \<open>Format checks\<close>

text \<open>
  C7. The bit depth check throws a \<open>const char*\<close>, which the handler for
  \<open>std::string\<close> does not catch: for a nine-bit clip vmafCreate makes no call at all,
  sets no error on the output map and releases nothing, and the exception leaves the
  function. The subsampling check next to it throws a \<open>std::string\<close> and is handled
  as the claim says.
\<close>

theorem char_pointer_escapes_handler:
  "vmafCreate (\<lambda>e. False) ex_core_9bit ex_args ''VMAF'' =
     ([], Escaped (CharPtr ''only 8, 10, 12 and 16 bit depth supported'')) \<and>
   vmafCreate (\<lambda>e. False) ex_core_411 ex_args ''VMAF'' =
     ([MapSetError ''VMAF: only 420/422/444 chroma subsampling is supported'',
       FreeNode 1, FreeNode 2, Close NullContext],
      Rejected ''VMAF: only 420/422/444 chroma subsampling is supported'')"
  by (simp add: vmafCreate_def vmafCreate_try_def check_format_def isConstantVideoFormat_def
      new_VMAFData_def ex_core_9bit_def ex_core_411_def ex_args_def ex_vi_def ex_format_def)

section \<open>The two clips\<close>

text \<open>Two more runs of the example.\<close>

lemma ex_run_json:
  "snd (vmafCreate ex_engine ex_core ex_args_json ''VMAF'') = Created (ex_data\<lparr>logFormat := 2\<rparr>)"
  by (simp add: ex_eval ex_engine_def ex_args_json_def ex_data_def)

lemma ex_run_none:
  "vmafCreate ex_engine ex_core ex_args_none ''VMAF'' =
     ([VmafInit 4 1, CudaStateInit, CudaImportState, CreateVideoFilter ''VMAF''],
      Created (ex_data\<lparr>model := [], modelCollection := [], chroma := False\<rparr>))"
  by (simp add: ex_eval ex_engine_def ex_args_none_def ex_data_def)

text \<open>
  C8. If the distorted clip differs from the reference clip in width, height, colour
  family, sample type, bit depth, subsampling or number of frames, no filter is created.
  If the two descriptors are identical, construction is not rejected for a mismatch of
  format, dimensions or frame count.
\<close>

theorem clip_mismatch_rejected:
  "(width (videoInfo core (arg_distorted args)) \<noteq> width (videoInfo core (arg_reference args)) \<or>
    height (videoInfo core (arg_distorted args)) \<noteq> height (videoInfo core (arg_reference args)) \<or>
    colorFamily (format (videoInfo core (arg_distorted args))) \<noteq>
      colorFamily (format (videoInfo core (arg_reference args))) \<or>
    sampleType (format (videoInfo core (arg_distorted args))) \<noteq>
      sampleType (format (videoInfo core (arg_reference args))) \<or>
    bitsPerSample (format (videoInfo core (arg_distorted args))) \<noteq>
      bitsPerSample (format (videoInfo core (arg_reference args))) \<or>
    subSamplingW (format (videoInfo core (arg_distorted args))) \<noteq>
      subSamplingW (format (videoInfo core (arg_reference args))) \<or>
    subSamplingH (format (videoInfo core (arg_distorted args))) \<noteq>
      subSamplingH (format (videoInfo core (arg_reference args))) \<or>
    numFrames (videoInfo core (arg_distorted args)) \<noteq>
      numFrames (videoInfo core (arg_reference args))
    \<longrightarrow> (\<forall>d. snd (vmafCreate fails core args userData) \<noteq> Created d)) \<and>
   (videoInfo core (arg_distorted args) = videoInfo core (arg_reference args)
    \<longrightarrow> snd (vmafCreate fails core args userData) \<noteq>
          Rejected (userData @ '': both clips must have the same format and dimensions'') \<and>
        snd (vmafCreate fails core args userData) \<noteq>
          Rejected (userData @ '': both clips' number of frames do not match''))"
proof (intro conjI impI allI notI)
  fix d
  assume diff: "width (videoInfo core (arg_distorted args)) \<noteq> width (videoInfo core (arg_reference args)) \<or>
    height (videoInfo core (arg_distorted args)) \<noteq> height (videoInfo core (arg_reference args)) \<or>
    colorFamily (format (videoInfo core (arg_distorted args))) \<noteq>
      colorFamily (format (videoInfo core (arg_reference args))) \<or>
    sampleType (format (videoInfo core (arg_distorted args))) \<noteq>
      sampleType (format (videoInfo core (arg_reference args))) \<or>
    bitsPerSample (format (videoInfo core (arg_distorted args))) \<noteq>
      bitsPerSample (format (videoInfo core (arg_reference args))) \<or>
    subSamplingW (format (videoInfo core (arg_distorted args))) \<noteq>
      subSamplingW (format (videoInfo core (arg_reference args))) \<or>
    subSamplingH (format (videoInfo core (arg_distorted args))) \<noteq>
      subSamplingH (format (videoInfo core (arg_reference args))) \<or>
    numFrames (videoInfo core (arg_distorted args)) \<noteq>
      numFrames (videoInfo core (arg_reference args))"
    and c: "snd (vmafCreate fails core args userData) = Created d"
  from vmafCreate_Created(4,5) [OF c] diff show False
    by (auto simp: isSameVideoInfo_def isSameVideoFormat_def)
next
  assume same: "videoInfo core (arg_distorted args) = videoInfo core (arg_reference args)"
    and "snd (vmafCreate fails core args userData) =
          Rejected (userData @ '': both clips must have the same format and dimensions'')"
  then have "snd (vmafCreate_try fails core args userData) =
          Some (StdString ''both clips must have the same format and dimensions'')"
    by (simp add: vmafCreate_Rejected_iff)
  from vmafCreate_try_clip_format [OF this] same show False
    by (simp add: isSameVideoInfo_def isSameVideoFormat_def)
next
  assume same: "videoInfo core (arg_distorted args) = videoInfo core (arg_reference args)"
    and "snd (vmafCreate fails core args userData) =
          Rejected (userData @ '': both clips' number of frames do not match'')"
  then have "snd (vmafCreate_try fails core args userData) =
          Some (StdString ''both clips' number of frames do not match'')"
    by (simp add: vmafCreate_Rejected_iff)
  from vmafCreate_try_clip_frames [OF this] same show False by simp
qed

theorem clip_mismatch_rejected_witness:
  "width (videoInfo ex_core_mismatch (arg_distorted ex_args)) = 32 \<and>
   width (videoInfo ex_core_mismatch (arg_reference ex_args)) = 64 \<and>
   (\<forall>d. snd (vmafCreate ex_engine ex_core_mismatch ex_args ''VMAF'') \<noteq> Created d) \<and>
   videoInfo ex_core (arg_distorted ex_args) = videoInfo ex_core (arg_reference ex_args) \<and>
   snd (vmafCreate ex_engine ex_core ex_args ''VMAF'') \<noteq>
     Rejected (''VMAF'' @ '': both clips must have the same format and dimensions'') \<and>
   snd (vmafCreate ex_engine ex_core ex_args ''VMAF'') \<noteq>
     Rejected (''VMAF'' @ '': both clips' number of frames do not match'')"
proof -
  have w: "width (videoInfo ex_core_mismatch (arg_distorted ex_args)) = 32"
    "width (videoInfo ex_core_mismatch (arg_reference ex_args)) = 64"
    by (simp_all add: ex_core_mismatch_def ex_args_def ex_vi_def)
  have s: "videoInfo ex_core (arg_distorted ex_args) = videoInfo ex_core (arg_reference ex_args)"
    by (simp add: ex_core_def)
  from w have "\<forall>d. snd (vmafCreate ex_engine ex_core_mismatch ex_args ''VMAF'') \<noteq> Created d"
    using clip_mismatch_rejected [of ex_core_mismatch ex_args ex_engine "''VMAF''"] by simp
  moreover from s have "snd (vmafCreate ex_engine ex_core ex_args ''VMAF'') \<noteq>
     Rejected (''VMAF'' @ '': both clips must have the same format and dimensions'') \<and>
   snd (vmafCreate ex_engine ex_core ex_args ''VMAF'') \<noteq>
     Rejected (''VMAF'' @ '': both clips' number of frames do not match'')"
    using clip_mismatch_rejected [of ex_core ex_args ex_engine "''VMAF''"] by blast
  ultimately show ?thesis using w s by blast
qed

section \<open>Enumerated selectors\<close>

lemma int64ToIntS_range:
  "int64ToIntS l < 0 \<longleftrightarrow> l < 0" "3 < int64ToIntS l \<longleftrightarrow> 3 < l"
  "0 \<le> int64ToIntS l \<longleftrightarrow> 0 \<le> l" "int64ToIntS l \<le> 3 \<longleftrightarrow> l \<le> 3"
  "0 \<le> l \<Longrightarrow> l \<le> 3 \<Longrightarrow> int64ToIntS l = l"
  by (auto simp: int64ToIntS_def)

text \<open>
  C9. No filter is created when a model identifier lies outside 0..3, a feature
  identifier lies outside 0..4, the model or the feature list has a repeated entry
  anywhere, or the given log format selector lies outside 0..3. A created filter was
  given a selector within 0..3, and selectors 0, 1, 2, 3 are stored as the distinct
  output formats XML, JSON, CSV and SUB.
\<close>

theorem invalid_selectors_rejected:
  "((\<exists>m \<in> set (mapGetIntArray (arg_model args)). m < 0 \<or> 3 < m) \<or>
    \<not> distinct (mapGetIntArray (arg_model args)) \<or>
    (\<exists>f \<in> set (mapGetIntArray (arg_feature args)). f < 0 \<or> 4 < f) \<or>
    \<not> distinct (mapGetIntArray (arg_feature args)) \<or>
    (\<exists>l. arg_log_format args = Some l \<and> (l < 0 \<or> 3 < l))
    \<longrightarrow> (\<forall>d. snd (vmafCreate fails core args userData) \<noteq> Created d)) \<and>
   (\<forall>d l. snd (vmafCreate fails core args userData) = Created d \<and> arg_log_format args = Some l
      \<longrightarrow> 0 \<le> l \<and> l \<le> 3 \<and>
          logFormat d = [VMAF_OUTPUT_FORMAT_XML, VMAF_OUTPUT_FORMAT_JSON,
                         VMAF_OUTPUT_FORMAT_CSV, VMAF_OUTPUT_FORMAT_SUB] ! nat l) \<and>
   distinct [VMAF_OUTPUT_FORMAT_XML, VMAF_OUTPUT_FORMAT_JSON,
             VMAF_OUTPUT_FORMAT_CSV, VMAF_OUTPUT_FORMAT_SUB]"
proof (intro conjI impI allI notI)
  fix d
  assume bad: "(\<exists>m \<in> set (mapGetIntArray (arg_model args)). m < 0 \<or> 3 < m) \<or>
    \<not> distinct (mapGetIntArray (arg_model args)) \<or>
    (\<exists>f \<in> set (mapGetIntArray (arg_feature args)). f < 0 \<or> 4 < f) \<or>
    \<not> distinct (mapGetIntArray (arg_feature args)) \<or>
    (\<exists>l. arg_log_format args = Some l \<and> (l < 0 \<or> 3 < l))"
    and c: "snd (vmafCreate fails core args userData) = Created d"
  note C = vmafCreate_Created [OF c]
  have m: "\<forall>m \<in> set (mapGetIntArray (arg_model args)). 0 \<le> m \<and> m \<le> 3"
    and dm: "distinct (mapGetIntArray (arg_model args))"
    using C(13) by (auto intro: count_le_1_distinct)
  have f: "\<forall>f \<in> set (mapGetIntArray (arg_feature args)). 0 \<le> f \<and> f \<le> 4"
    and df: "distinct (mapGetIntArray (arg_feature args))"
    using C(14) by (auto intro: count_le_1_distinct)
  have l: "\<not> (\<exists>l. arg_log_format args = Some l \<and> (l < 0 \<or> 3 < l))"
    using C(2,3) by (auto simp: mapGetIntSaturated_def int64ToIntS_range)
  from bad m dm f df l show False by force
next
  fix d l
  assume a: "snd (vmafCreate fails core args userData) = Created d \<and> arg_log_format args = Some l"
  then have c: "snd (vmafCreate fails core args userData) = Created d"
    and s: "arg_log_format args = Some l" by simp_all
  note C = vmafCreate_Created [OF c]
  from C(2,3) s show r: "0 \<le> l" "l \<le> 3"
    by (auto simp: mapGetIntSaturated_def int64ToIntS_range)
  then have "l = 0 \<or> l = 1 \<or> l = 2 \<or> l = 3" by arith
  with C(8) s r show "logFormat d = [VMAF_OUTPUT_FORMAT_XML, VMAF_OUTPUT_FORMAT_JSON,
                         VMAF_OUTPUT_FORMAT_CSV, VMAF_OUTPUT_FORMAT_SUB] ! nat l"
    by (auto simp: mapGetIntSaturated_def int64ToIntS_range VMAF_OUTPUT_FORMAT_XML_def
        VMAF_OUTPUT_FORMAT_JSON_def VMAF_OUTPUT_FORMAT_CSV_def VMAF_OUTPUT_FORMAT_SUB_def)
next
  show "distinct [VMAF_OUTPUT_FORMAT_XML, VMAF_OUTPUT_FORMAT_JSON,
             VMAF_OUTPUT_FORMAT_CSV, VMAF_OUTPUT_FORMAT_SUB]"
    by (simp add: VMAF_OUTPUT_FORMAT_XML_def VMAF_OUTPUT_FORMAT_JSON_def
        VMAF_OUTPUT_FORMAT_CSV_def VMAF_OUTPUT_FORMAT_SUB_def)
qed

theorem invalid_selectors_rejected_witness:
  "\<not> distinct (mapGetIntArray (arg_model ex_args_dup)) \<and>
   (\<forall>d. snd (vmafCreate ex_engine ex_core ex_args_dup ''VMAF'') \<noteq> Created d) \<and>
   5 \<in> set (mapGetIntArray (arg_feature ex_args_feature5)) \<and>
   (\<forall>d. snd (vmafCreate ex_engine ex_core ex_args_feature5 ''VMAF'') \<noteq> Created d) \<and>
   arg_log_format ex_args_format7 = Some 7 \<and>
   (\<forall>d. snd (vmafCreate ex_engine ex_core ex_args_format7 ''VMAF'') \<noteq> Created d) \<and>
   snd (vmafCreate ex_engine ex_core ex_args_json ''VMAF'') = Created (ex_data\<lparr>logFormat := 2\<rparr>) \<and>
   arg_log_format ex_args_json = Some 1 \<and>
   logFormat (ex_data\<lparr>logFormat := 2\<rparr>) = VMAF_OUTPUT_FORMAT_JSON"
proof -
  have h1: "\<not> distinct (mapGetIntArray (arg_model ex_args_dup))"
    by (simp add: ex_args_dup_def mapGetIntArray_def)
  have h2: "5 \<in> set (mapGetIntArray (arg_feature ex_args_feature5))"
    by (simp add: ex_args_feature5_def mapGetIntArray_def)
  have h3: "arg_log_format ex_args_format7 = Some 7"
    by (simp add: ex_args_format7_def)
  have h4: "arg_log_format ex_args_json = Some 1"
    by (simp add: ex_args_json_def ex_args_def)
  have c1: "\<forall>d. snd (vmafCreate ex_engine ex_core ex_args_dup ''VMAF'') \<noteq> Created d"
    using invalid_selectors_rejected [of ex_args_dup ex_engine ex_core "''VMAF''"] h1 by blast
  have c2: "\<forall>d. snd (vmafCreate ex_engine ex_core ex_args_feature5 ''VMAF'') \<noteq> Created d"
    using invalid_selectors_rejected [of ex_args_feature5 ex_engine ex_core "''VMAF''"] h2 by force
  have c3: "\<forall>d. snd (vmafCreate ex_engine ex_core ex_args_format7 ''VMAF'') \<noteq> Created d"
    using invalid_selectors_rejected [of ex_args_format7 ex_engine ex_core "''VMAF''"] h3 by force
  have c4: "logFormat (ex_data\<lparr>logFormat := 2\<rparr>) = VMAF_OUTPUT_FORMAT_JSON"
    using invalid_selectors_rejected [of ex_args_json ex_engine ex_core "''VMAF''"] h4 ex_run_json
    by (simp add: VMAF_OUTPUT_FORMAT_JSON_def)
  from h1 h2 h3 h4 c1 c2 c3 c4 ex_run_json show ?thesis by blast
qed

section \<open>Omitted arguments\<close>

lemma setup_models_args:
  "arg_model a = arg_model b \<Longrightarrow> arg_feature a = arg_feature b \<Longrightarrow>
   setup_models fails core a st = setup_models fails core b st"
  by (simp add: setup_models_def Let_def)

lemma setup_models_no_model:
  "setup_models fails core (args\<lparr>arg_model := None\<rparr>) st =
   setup_models fails core (args\<lparr>arg_model := Some []\<rparr>) st"
  by (simp add: setup_models_def Let_def mapGetIntArray_def mapNumElements_def load_models_exit)

lemma setup_models_no_feature:
  "setup_models fails core (args\<lparr>arg_feature := None\<rparr>) st =
   setup_models fails core (args\<lparr>arg_feature := Some []\<rparr>) st"
  by (simp add: setup_models_def Let_def mapGetIntArray_def mapNumElements_def load_features_exit)

text \<open>
  C10. Leaving \<open>log_format\<close> out is the same as passing 0: construction is never
  rejected for the log format, and a created filter writes XML, the first of the four
  formats. Leaving \<open>model\<close> or \<open>feature\<close> out is the same as passing an empty list:
  with both left out, no load and no feature call is made and the filter holds no model,
  no collection and a clear chroma flag.
\<close>

theorem omitted_optionals:
  "vmafCreate fails core (args\<lparr>arg_log_format := None\<rparr>) userData =
     vmafCreate fails core (args\<lparr>arg_log_format := Some 0\<rparr>) userData \<and>
   vmafCreate fails core (args\<lparr>arg_model := None\<rparr>) userData =
     vmafCreate fails core (args\<lparr>arg_model := Some []\<rparr>) userData \<and>
   vmafCreate fails core (args\<lparr>arg_feature := None\<rparr>) userData =
     vmafCreate fails core (args\<lparr>arg_feature := Some []\<rparr>) userData \<and>
   snd (vmafCreate fails core (args\<lparr>arg_log_format := None\<rparr>) userData) \<noteq>
     Rejected (userData @ '': log_format must be 0, 1, 2, or 3'') \<and>
   (\<forall>d. snd (vmafCreate fails core (args\<lparr>arg_log_format := None\<rparr>) userData) = Created d
      \<longrightarrow> logFormat d = VMAF_OUTPUT_FORMAT_XML) \<and>
   (\<forall>d. snd (vmafCreate fails core (args\<lparr>arg_model := None, arg_feature := None\<rparr>) userData)
          = Created d
      \<longrightarrow> fst (vmafCreate fails core (args\<lparr>arg_model := None, arg_feature := None\<rparr>) userData) =
            [VmafInit (numThreads core) 1, CudaStateInit, CudaImportState,
             CreateVideoFilter userData] \<and>
          model d = [] \<and> modelCollection d = [] \<and> \<not> chroma d)"
proof (intro conjI allI impI)
  have "vmafCreate_try fails core (args\<lparr>arg_log_format := None\<rparr>) userData =
        vmafCreate_try fails core (args\<lparr>arg_log_format := Some 0\<rparr>) userData"
    by (simp add: vmafCreate_try_unfold mapGetIntSaturated_def int64ToIntS_def
        setup_models_args [of "args\<lparr>arg_log_format := None\<rparr>" "args\<lparr>arg_log_format := Some 0\<rparr>"])
  then show "vmafCreate fails core (args\<lparr>arg_log_format := None\<rparr>) userData =
     vmafCreate fails core (args\<lparr>arg_log_format := Some 0\<rparr>) userData"
    by (simp add: vmafCreate_def)
  have "vmafCreate_try fails core (args\<lparr>arg_model := None\<rparr>) userData =
        vmafCreate_try fails core (args\<lparr>arg_model := Some []\<rparr>) userData"
    by (simp add: vmafCreate_try_unfold setup_models_no_model)
  then show "vmafCreate fails core (args\<lparr>arg_model := None\<rparr>) userData =
     vmafCreate fails core (args\<lparr>arg_model := Some []\<rparr>) userData"
    by (simp add: vmafCreate_def)
  have "vmafCreate_try fails core (args\<lparr>arg_feature := None\<rparr>) userData =
        vmafCreate_try fails core (args\<lparr>arg_feature := Some []\<rparr>) userData"
    by (simp add: vmafCreate_try_unfold setup_models_no_feature)
  then show "vmafCreate fails core (args\<lparr>arg_feature := None\<rparr>) userData =
     vmafCreate fails core (args\<lparr>arg_feature := Some []\<rparr>) userData"
    by (simp add: vmafCreate_def)
  show "snd (vmafCreate fails core (args\<lparr>arg_log_format := None\<rparr>) userData) \<noteq>
     Rejected (userData @ '': log_format must be 0, 1, 2, or 3'')"
  proof
    assume "snd (vmafCreate fails core (args\<lparr>arg_log_format := None\<rparr>) userData) =
     Rejected (userData @ '': log_format must be 0, 1, 2, or 3'')"
    then have "snd (vmafCreate_try fails core (args\<lparr>arg_log_format := None\<rparr>) userData) =
       Some (StdString ''log_format must be 0, 1, 2, or 3'')"
      by (simp add: vmafCreate_Rejected_iff)
    from vmafCreate_try_log_format [OF this] show False
      by (simp add: mapGetIntSaturated_def)
  qed
next
  fix d
  assume "snd (vmafCreate fails core (args\<lparr>arg_log_format := None\<rparr>) userData) = Created d"
  from vmafCreate_Created(8) [OF this] show "logFormat d = VMAF_OUTPUT_FORMAT_XML"
    by (simp add: mapGetIntSaturated_def VMAF_OUTPUT_FORMAT_XML_def)
next
  fix d
  assume c: "snd (vmafCreate fails core (args\<lparr>arg_model := None, arg_feature := None\<rparr>) userData)
          = Created d"
  note C = vmafCreate_Created [OF c]
  from C(12) show "fst (vmafCreate fails core (args\<lparr>arg_model := None, arg_feature := None\<rparr>) userData) =
            [VmafInit (numThreads core) 1, CudaStateInit, CudaImportState,
             CreateVideoFilter userData]"
    by (simp add: mapGetIntArray_def)
  from C(9) show "model d = []" by (simp add: mapGetIntArray_def)
  from C(10) show "modelCollection d = []" by (simp add: mapGetIntArray_def)
  from C(11) show "\<not> chroma d" by (simp add: mapGetIntArray_def)
qed

theorem omitted_optionals_witness:
  "vmafCreate ex_engine ex_core (ex_args_none\<lparr>arg_model := None, arg_feature := None\<rparr>) ''VMAF'' =
     ([VmafInit 4 1, CudaStateInit, CudaImportState, CreateVideoFilter ''VMAF''],
      Created (ex_data\<lparr>model := [], modelCollection := [], chroma := False\<rparr>)) \<and>
   vmafCreate ex_engine ex_core (ex_args_none\<lparr>arg_log_format := None\<rparr>) ''VMAF'' =
     vmafCreate ex_engine ex_core (ex_args_none\<lparr>arg_log_format := Some 0\<rparr>) ''VMAF'' \<and>
   logFormat (ex_data\<lparr>model := [], modelCollection := [], chroma := False\<rparr>)
     = VMAF_OUTPUT_FORMAT_XML"
proof -
  have same: "ex_args_none\<lparr>arg_model := None, arg_feature := None\<rparr> = ex_args_none"
    "ex_args_none\<lparr>arg_log_format := None\<rparr> = ex_args_none"
    by (simp_all add: ex_args_none_def)
  have c: "snd (vmafCreate ex_engine ex_core (ex_args_none\<lparr>arg_log_format := None\<rparr>) ''VMAF'')
        = Created (ex_data\<lparr>model := [], modelCollection := [], chroma := False\<rparr>)"
    by (simp add: same ex_run_none)
  note T = omitted_optionals [of ex_engine ex_core ex_args_none "''VMAF''"]
  from T c have "logFormat (ex_data\<lparr>model := [], modelCollection := [], chroma := False\<rparr>)
     = VMAF_OUTPUT_FORMAT_XML" by blast
  moreover from T have "vmafCreate ex_engine ex_core (ex_args_none\<lparr>arg_log_format := None\<rparr>) ''VMAF'' =
     vmafCreate ex_engine ex_core (ex_args_none\<lparr>arg_log_format := Some 0\<rparr>) ''VMAF''" by blast
  ultimately show ?thesis by (simp add: same(1) ex_run_none)
qed

end
